theory Spec2Isabelle
  imports Main
begin

section \<open>Python strings\<close>

text \<open>
  A Python \<^verbatim>\<open>str\<close> is a sequence of Unicode code points, and the program counts and
  compares code points (\<^verbatim>\<open>pid[:25]\<close>, \<^verbatim>\<open>c in df.columns\<close>). A string is therefore a
  list of code points. The Cyrillic column names of the source are written as
  their code points; ASCII text is written as a literal under \<open>u\<close>.
\<close>

type_synonym ustring = "nat list"

abbreviation (input) u :: "string \<Rightarrow> ustring" where
  "u s \<equiv> map of_char s"

text \<open>
  \<^verbatim>\<open>str.isspace\<close> of a single code point: the white space that \<^verbatim>\<open>str.strip()\<close>
  removes (CPython's \<^verbatim>\<open>_PyUnicode_IsWhitespace\<close>).
\<close>

definition isspace :: "nat \<Rightarrow> bool" where
  "isspace c \<longleftrightarrow>
     (9 \<le> c \<and> c \<le> 13) \<or> (28 \<le> c \<and> c \<le> 32) \<or> c = 133 \<or> c = 160 \<or> c = 5760 \<or>
     (8192 \<le> c \<and> c \<le> 8202) \<or> c = 8232 \<or> c = 8233 \<or> c = 8239 \<or> c = 8287 \<or>
     c = 12288"

text \<open>\<^verbatim>\<open>s.strip()\<close>\<close>

definition strip :: "ustring \<Rightarrow> ustring" where
  "strip s = rev (dropWhile isspace (rev (dropWhile isspace s)))"

text \<open>\<^verbatim>\<open>s.replace(old, new)\<close> for a one-character \<^verbatim>\<open>old\<close>, the only use in the source.\<close>

definition str_replace :: "nat \<Rightarrow> ustring \<Rightarrow> ustring \<Rightarrow> ustring" where
  "str_replace old new s = concat (map (\<lambda>c. if c = old then new else [c]) s)"

text \<open>\<^verbatim>\<open>s.split(sep)\<close> for a one-character separator: never an empty list.\<close>

fun str_split :: "nat \<Rightarrow> ustring \<Rightarrow> ustring list" where
  "str_split sep [] = [[]]"
| "str_split sep (c # cs) =
     (if c = sep then [] # str_split sep cs
      else (case str_split sep cs of
              [] \<Rightarrow> [[c]]
            | p # ps \<Rightarrow> (c # p) # ps))"

text \<open>
  \<^verbatim>\<open>s.lower()\<close>, for the scripts the column headers of this program are written in:
  Basic Latin, Latin-1 and Cyrillic (U+0400 to U+042F, and U+0490). Every other
  code point is left as it is; Python's full Unicode case mapping is not modelled.
\<close>

definition lower_char :: "nat \<Rightarrow> nat" where
  "lower_char c =
     (if 65 \<le> c \<and> c \<le> 90 then c + 32
      else if 192 \<le> c \<and> c \<le> 222 \<and> c \<noteq> 215 then c + 32
      else if 1024 \<le> c \<and> c \<le> 1039 then c + 80
      else if 1040 \<le> c \<and> c \<le> 1071 then c + 32
      else if c = 1168 then 1169
      else c)"

definition str_lower :: "ustring \<Rightarrow> ustring" where
  "str_lower s = map lower_char s"

text \<open>\<^verbatim>\<open>str(n)\<close> of an integer: its decimal digits.\<close>

function digits_of :: "nat \<Rightarrow> ustring" where
  "digits_of n = (if n < 10 then [48 + n] else digits_of (n div 10) @ [48 + n mod 10])"
  by pat_completeness auto
termination
  by (relation "measure id") auto

declare digits_of.simps [simp del]

definition str_int :: "int \<Rightarrow> ustring" where
  "str_int i = (if i < 0 then 45 # digits_of (nat (- i)) else digits_of (nat i))"

section \<open>Python floats\<close>

text \<open>
  A float is modelled by the decimal it is written as: \<open>Fin m e\<close> is \<open>m * 10 ^ e\<close>,
  kept normalised (\<open>m\<close> has no trailing zero digit, zero is \<open>Fin 0 0\<close>). The rounding
  of a decimal to the nearest binary64 value, overflow to infinity, underflow to
  zero and the sign of zero are not modelled: the model is exact for literals of
  at most 15 significant digits inside the binary64 range. No theorem below
  depends on more than whether a text parses and whether the value is zero.
\<close>

datatype pyfloat = Fin int int | PosInf | NegInf | FNaN

function strip_zeros :: "int \<Rightarrow> int \<Rightarrow> int \<times> int" where
  "strip_zeros m e =
     (if m = 0 then (0, 0)
      else if m mod 10 = 0 then strip_zeros (m div 10) (e + 1)
      else (m, e))"
  by pat_completeness auto
termination
  by (relation "measure (\<lambda>(m, e). nat \<bar>m\<bar>)") auto

declare strip_zeros.simps [simp del]

definition mk_fin :: "int \<Rightarrow> int \<Rightarrow> pyfloat" where
  "mk_fin m e = (case strip_zeros m e of (m', e') \<Rightarrow> Fin m' e')"

definition isdigit :: "nat \<Rightarrow> bool" where
  "isdigit c \<longleftrightarrow> 48 \<le> c \<and> c \<le> 57"

text \<open>The value of a string of ASCII digits (0 for the empty string).\<close>

definition digits_value :: "ustring \<Rightarrow> nat" where
  "digits_value ds = foldl (\<lambda>n c. 10 * n + (c - 48)) 0 ds"

text \<open>
  CPython accepts an underscore in a float literal only between two digits
  (\<^verbatim>\<open>_Py_string_to_number_with_underscores\<close>); \<open>prev\<close> is the character before.
\<close>

fun underscores_ok :: "nat \<Rightarrow> ustring \<Rightarrow> bool" where
  "underscores_ok prev [] = (prev \<noteq> 95)"
| "underscores_ok prev (c # cs) =
     ((if c = 95 then isdigit prev else if prev = 95 then isdigit c else True)
      \<and> underscores_ok c cs)"

definition ascii_lower :: "nat \<Rightarrow> nat" where
  "ascii_lower c = (if 65 \<le> c \<and> c \<le> 90 then c + 32 else c)"

text \<open>An optional leading sign: whether it is a minus, and the rest.\<close>

fun take_sign :: "ustring \<Rightarrow> bool \<times> ustring" where
  "take_sign [] = (False, [])"
| "take_sign (c # cs) =
     (if c = 45 then (True, cs) else if c = 43 then (False, cs) else (False, c # cs))"

text \<open>The exponent part of a float literal: empty, or e/E, an optional sign and digits.\<close>

definition float_exponent :: "ustring \<Rightarrow> int option" where
  "float_exponent s =
     (case s of
        [] \<Rightarrow> Some 0
      | c # cs \<Rightarrow>
          if c = 101 \<or> c = 69 then
            (case take_sign cs of
               (neg, ds) \<Rightarrow>
                 if ds \<noteq> [] \<and> list_all isdigit ds
                 then Some (if neg then - int (digits_value ds) else int (digits_value ds))
                 else None)
          else None)"

text \<open>
  \<^verbatim>\<open>float(s)\<close> for a string: \<open>None\<close> is the \<^verbatim>\<open>ValueError\<close>. The grammar is the one of
  the Python reference (sign, \<^verbatim>\<open>inf\<close>, \<^verbatim>\<open>infinity\<close>, \<^verbatim>\<open>nan\<close> in any case, digits with
  an optional point and exponent, underscores between digits, white space around),
  over ASCII digits.
\<close>

definition py_float :: "ustring \<Rightarrow> pyfloat option" where
  "py_float s0 =
     (let s = strip s0 in
      if \<not> underscores_ok 0 s then None
      else
        (case take_sign (filter (\<lambda>c. c \<noteq> 95) s) of
           (neg, r) \<Rightarrow>
             let lr = map ascii_lower r in
             if lr = u ''inf'' \<or> lr = u ''infinity'' then Some (if neg then NegInf else PosInf)
             else if lr = u ''nan'' then Some FNaN
             else
               let ip = takeWhile isdigit r;
                   r1 = dropWhile isdigit r;
                   fp = (case r1 of [] \<Rightarrow> [] | c # cs \<Rightarrow>
                           if c = 46 then takeWhile isdigit cs else []);
                   r2 = (case r1 of [] \<Rightarrow> [] | c # cs \<Rightarrow>
                           if c = 46 then dropWhile isdigit cs else r1)
               in if ip = [] \<and> fp = [] then None
                  else
                    (case float_exponent r2 of
                       None \<Rightarrow> None
                     | Some ex \<Rightarrow>
                         let m = int (digits_value (ip @ fp)) in
                         Some (mk_fin (if neg then - m else m) (ex - int (length fp))))))"

text \<open>
  \<^verbatim>\<open>str(x)\<close> of a float (\<^verbatim>\<open>repr\<close>, the short form): fixed notation when the decimal
  point falls between \<^verbatim>\<open>-4\<close> and \<^verbatim>\<open>16\<close>, exponent notation otherwise.
\<close>

definition float_digits :: "ustring \<Rightarrow> int \<Rightarrow> ustring" where
  "float_digits ds decpt =
     (let n = int (length ds) in
      if decpt \<le> - 4 \<or> 16 < decpt then
        hd ds # (if tl ds = [] then [] else 46 # tl ds) @ [101] @
        (if decpt - 1 < 0 then [45] else [43]) @
        (if \<bar>decpt - 1\<bar> < 10 then [48] else []) @ digits_of (nat \<bar>decpt - 1\<bar>)
      else if decpt \<le> 0 then u ''0.'' @ replicate (nat (- decpt)) 48 @ ds
      else if n \<le> decpt then ds @ replicate (nat (decpt - n)) 48 @ u ''.0''
      else take (nat decpt) ds @ [46] @ drop (nat decpt) ds)"

definition str_float :: "pyfloat \<Rightarrow> ustring" where
  "str_float x =
     (case x of
        FNaN \<Rightarrow> u ''nan''
      | PosInf \<Rightarrow> u ''inf''
      | NegInf \<Rightarrow> u ''-inf''
      | Fin m e \<Rightarrow>
          if m = 0 then u ''0.0''
          else
            (let ds = digits_of (nat \<bar>m\<bar>) in
             (if m < 0 then [45] else []) @ float_digits ds (int (length ds) + e)))"

text \<open>The truth value of a float: false for zero only (\<^verbatim>\<open>nan\<close> is true).\<close>

definition float_bool :: "pyfloat \<Rightarrow> bool" where
  "float_bool x = (case x of Fin m e \<Rightarrow> m \<noteq> 0 | _ \<Rightarrow> True)"

section \<open>Cells, rows and frames (pandas)\<close>

text \<open>
  A cell of a frame holds text, an integer or a float; the missing value \<^verbatim>\<open>NaN\<close> is
  the float \<^verbatim>\<open>nan\<close>. Columns are modelled with \<^verbatim>\<open>dtype=object\<close>: each cell keeps its
  own type, and pandas' coercion of a whole numeric column is not modelled. The
  semantics is the one of Python 3.8 and later with pandas 1.x or 2.x (\<^verbatim>\<open>astype(str)\<close>
  turns \<^verbatim>\<open>NaN\<close> into the text \<^verbatim>\<open>nan\<close>).
\<close>

datatype cell = Str ustring | IntV int | Flt pyfloat

abbreviation NaN :: cell where
  "NaN \<equiv> Flt FNaN"

text \<open>\<^verbatim>\<open>pd.notna(v)\<close>\<close>

definition notna :: "cell \<Rightarrow> bool" where
  "notna v \<longleftrightarrow> v \<noteq> NaN"

text \<open>\<^verbatim>\<open>str(v)\<close>\<close>

fun str_cell :: "cell \<Rightarrow> ustring" where
  "str_cell (Str s) = s"
| "str_cell (IntV i) = str_int i"
| "str_cell (Flt x) = str_float x"

text \<open>The truth value of a cell, as \<^verbatim>\<open>if v:\<close> tests it.\<close>

fun cell_bool :: "cell \<Rightarrow> bool" where
  "cell_bool (Str s) = (s \<noteq> [])"
| "cell_bool (IntV i) = (i \<noteq> 0)"
| "cell_bool (Flt x) = float_bool x"

text \<open>
  A row as \<^verbatim>\<open>iterrows()\<close> yields it: a \<^verbatim>\<open>Series\<close> indexed by the column names.
  \<^verbatim>\<open>c in row\<close> is \<open>map_of row c \<noteq> None\<close>, \<^verbatim>\<open>row[c]\<close> is the value found, and
  \<^verbatim>\<open>row.get(c, d)\<close> is \<open>series_get\<close>. Column names are taken to be distinct.
\<close>

type_synonym series = "(ustring \<times> cell) list"

definition series_get :: "series \<Rightarrow> ustring \<Rightarrow> cell \<Rightarrow> cell" where
  "series_get r c d = (case map_of r c of None \<Rightarrow> d | Some v \<Rightarrow> v)"

record dataframe =
  columns :: "ustring list"
  data :: "cell list list"

definition iterrows :: "dataframe \<Rightarrow> series list" where
  "iterrows df = map (zip (columns df)) (data df)"

datatype py_error = KeyError ustring

text \<open>\<^verbatim>\<open>df[c]\<close>: the column, or \<^verbatim>\<open>KeyError\<close>.\<close>

definition get_col :: "dataframe \<Rightarrow> ustring \<Rightarrow> py_error + cell list" where
  "get_col df c =
     (if c \<in> set (columns df) then Inr (map (\<lambda>r. series_get r c NaN) (iterrows df))
      else Inl (KeyError c))"

text \<open>
  \<^verbatim>\<open>df[c] = values\<close>, one value for each row: an existing column is overwritten in
  place, a new one is appended.
\<close>

definition set_col :: "dataframe \<Rightarrow> ustring \<Rightarrow> cell list \<Rightarrow> dataframe" where
  "set_col df c vs =
     (if c \<in> set (columns df) then
        df\<lparr>data := map (\<lambda>(r, v). r[length (takeWhile (\<lambda>x. x \<noteq> c) (columns df)) := v])
                      (zip (data df) vs)\<rparr>
      else
        df\<lparr>columns := columns df @ [c],
           data := map (\<lambda>(r, v). r @ [v]) (zip (data df) vs)\<rparr>)"

text \<open>\<^verbatim>\<open>df[[c1, c2, ...]]\<close>: the listed columns, or \<^verbatim>\<open>KeyError\<close> for the first missing one.\<close>

definition select_cols :: "dataframe \<Rightarrow> ustring list \<Rightarrow> py_error + dataframe" where
  "select_cols df cs =
     (case find (\<lambda>c. c \<notin> set (columns df)) cs of
        Some c \<Rightarrow> Inl (KeyError c)
      | None \<Rightarrow>
          Inr \<lparr>columns = cs,
               data = map (\<lambda>r. map (\<lambda>c. series_get r c NaN) cs) (iterrows df)\<rparr>)"

text \<open>\<^verbatim>\<open>df.rename(columns={old: new, ...})\<close>\<close>

definition rename_cols :: "dataframe \<Rightarrow> (ustring \<times> ustring) list \<Rightarrow> dataframe" where
  "rename_cols df m =
     df\<lparr>columns := map (\<lambda>c. case map_of m c of None \<Rightarrow> c | Some n \<Rightarrow> n) (columns df)\<rparr>"

text \<open>
  \<^verbatim>\<open>left.merge(right, on=key, how='left')\<close>: every row of \<open>left\<close>, in order, once for
  each row of \<open>right\<close> with the same key (in the order of \<open>right\<close>), and once with
  \<^verbatim>\<open>NaN\<close> in the columns of \<open>right\<close> when there is none. The two frames share no
  column but the key (pandas would rename shared columns with suffixes; in
  \<open>merge_ru_ua\<close> the columns of the left frame are lower-case and those of the right
  frame are not).
\<close>

definition merge_left :: "dataframe \<Rightarrow> dataframe \<Rightarrow> ustring \<Rightarrow> dataframe" where
  "merge_left left right key =
     (let rcols = filter (\<lambda>c. c \<noteq> key) (columns right) in
      \<lparr>columns = columns left @ rcols,
       data =
         concat (map (\<lambda>l.
           (case filter (\<lambda>r. series_get r key NaN = series_get (zip (columns left) l) key NaN)
                   (iterrows right) of
              [] \<Rightarrow> [l @ replicate (length rcols) NaN]
            | ms \<Rightarrow> map (\<lambda>r. l @ map (\<lambda>c. series_get r c NaN) rcols) ms))
           (data left))\<rparr>)"

text \<open>\<^verbatim>\<open>x or d\<close> for an optional string \<open>x\<close>: \<open>d\<close> when \<open>x\<close> is \<^verbatim>\<open>None\<close> or empty.\<close>

definition py_or :: "ustring option \<Rightarrow> ustring \<Rightarrow> ustring" where
  "py_or x d = (case x of None \<Rightarrow> d | Some s \<Rightarrow> if s = [] then d else s)"

text \<open>\<^verbatim>\<open>sep.join(xs)\<close>\<close>

fun str_join :: "ustring \<Rightarrow> ustring list \<Rightarrow> ustring" where
  "str_join sep [] = []"
| "str_join sep [x] = x"
| "str_join sep (x # y # ys) = x @ sep @ str_join sep (y # ys)"

text \<open>
  \<^verbatim>\<open>list(dict.fromkeys(xs))\<close>: a dictionary keeps its keys in the order of their
  first insertion, and inserting a key again changes nothing.
\<close>

definition fromkeys :: "'a list \<Rightarrow> 'a list" where
  "fromkeys xs = foldl (\<lambda>d k. if k \<in> set d then d else d @ [k]) [] xs"

text \<open>
  \<^verbatim>\<open>d[k] = v\<close> on a dictionary, as the list of its items in insertion order: the
  value of an existing key is replaced where it stands, a new key goes last.
\<close>

fun dict_set :: "'k \<Rightarrow> 'v \<Rightarrow> ('k \<times> 'v) list \<Rightarrow> ('k \<times> 'v) list" where
  "dict_set k v [] = [(k, v)]"
| "dict_set k v ((k', v') # kvs) =
     (if k' = k then (k, v) # kvs else (k', v') # dict_set k v kvs)"

text \<open>
  \<^verbatim>\<open>pd.DataFrame(rows)\<close> for a list of dictionaries: the columns are the keys in the
  order they first appear, a key a row lacks gives \<^verbatim>\<open>NaN\<close>.
  \<^verbatim>\<open>pd.DataFrame(rows, columns=cols)\<close> keeps the listed columns only.
\<close>

definition DataFrame_columns :: "series list \<Rightarrow> ustring list \<Rightarrow> dataframe" where
  "DataFrame_columns rows cols =
     \<lparr>columns = cols, data = map (\<lambda>r. map (\<lambda>c. series_get r c NaN) cols) rows\<rparr>"

definition DataFrame :: "series list \<Rightarrow> dataframe" where
  "DataFrame rows = DataFrame_columns rows (fromkeys (concat (map (map fst) rows)))"

section \<open>The tables of the source\<close>

text \<open>\<^verbatim>\<open>SRC["id"]\<close>, the same in the three versions. The Cyrillic entries, transliterated: \<^verbatim>\<open>kod\<close>, \<^verbatim>\<open>artykul\<close>.\<close>

definition SRC_id :: "ustring list" where
  "SRC_id =
     [u ''product code'',
      u ''main sku'',
      [1082, 1086, 1076],
      [1072, 1088, 1090, 1080, 1082, 1091, 1083]]"

text \<open>\<^verbatim>\<open>SRC["name"]\<close>, the same in the three versions. The Cyrillic entries, transliterated: \<^verbatim>\<open>nazva\<close>, \<^verbatim>\<open>nazvanye\<close>.\<close>

definition SRC_name :: "ustring list" where
  "SRC_name =
     [u ''name'',
      [1085, 1072, 1079, 1074, 1072],
      [1085, 1072, 1079, 1074, 1072, 1085, 1080, 1077]]"

text \<open>\<^verbatim>\<open>SRC["qty"]\<close>, the same in the three versions. The Cyrillic entries, transliterated: \<^verbatim>\<open>kilkist\<close>, \<^verbatim>\<open>kolychestvo\<close>.\<close>

definition SRC_qty :: "ustring list" where
  "SRC_qty =
     [u ''quantity'',
      [1082, 1110, 1083, 1100, 1082, 1110, 1089, 1090, 1100],
      [1082, 1086, 1083, 1080, 1095, 1077, 1089, 1090, 1074, 1086]]"

text \<open>\<^verbatim>\<open>SRC["price"]\<close>, the same in the three versions. The Cyrillic entries, transliterated: \<^verbatim>\<open>tsina\<close>, \<^verbatim>\<open>tsena\<close>.\<close>

definition SRC_price :: "ustring list" where
  "SRC_price =
     [u ''special price'',
      u ''price'',
      [1094, 1110, 1085, 1072],
      [1094, 1077, 1085, 1072]]"

text \<open>\<^verbatim>\<open>SRC["description"]\<close>, the same in the three versions. The Cyrillic entries, transliterated: \<^verbatim>\<open>opys\<close>, \<^verbatim>\<open>opysanye\<close>.\<close>

definition SRC_description :: "ustring list" where
  "SRC_description =
     [u ''description'',
      [1086, 1087, 1080, 1089],
      [1086, 1087, 1080, 1089, 1072, 1085, 1080, 1077]]"

text \<open>\<^verbatim>\<open>SRC["photos"]\<close> of \<^verbatim>\<open>bot_1_0.py\<close>. The Cyrillic entries, transliterated: \<^verbatim>\<open>posylannia_zobrazhennia\<close>, \<^verbatim>\<open>yzobrazhenye\<close>.\<close>

definition SRC_photos_1_0 :: "ustring list" where
  "SRC_photos_1_0 =
     [u ''main photo'',
      u ''photo1'',
      u ''photo2'',
      u ''photo3'',
      u ''photo4'',
      u ''photo5'',
      u ''photo6'',
      u ''photo7'',
      u ''photo8'',
      u ''photo 9'',
      u ''photo 10'',
      u ''photo 11'',
      u ''photo 12'',
      [1087, 1086, 1089, 1080, 1083, 1072, 1085, 1085, 1103, 95, 1079, 1086, 1073, 1088, 1072, 1078, 1077, 1085, 1085, 1103],
      [1080, 1079, 1086, 1073, 1088, 1072, 1078, 1077, 1085, 1080, 1077]]"

text \<open>\<^verbatim>\<open>SRC["photos"]\<close> of \<^verbatim>\<open>bot_1_1.py\<close> and \<^verbatim>\<open>bot_1_2.py\<close>. The Cyrillic entries, transliterated: \<^verbatim>\<open>posylannia_zobrazhennia\<close>, \<^verbatim>\<open>yzobrazhenye\<close>.\<close>

definition SRC_photos_1_1 :: "ustring list" where
  "SRC_photos_1_1 =
     [u ''main photo'',
      u ''photo1'',
      u ''photo2'',
      u ''photo3'',
      u ''photo4'',
      u ''photo5'',
      u ''photo6'',
      u ''photo7'',
      u ''photo8'',
      u ''photo9'',
      u ''photo10'',
      [1087, 1086, 1089, 1080, 1083, 1072, 1085, 1085, 1103, 95, 1079, 1086, 1073, 1088, 1072, 1078, 1077, 1085, 1085, 1103],
      [1080, 1079, 1086, 1073, 1088, 1072, 1078, 1077, 1085, 1080, 1077]]"

text \<open>\<^verbatim>\<open>SRC["params_primary"]\<close> of \<^verbatim>\<open>bot_1_0.py\<close> and \<^verbatim>\<open>bot_1_1.py\<close>: 21 pairs of a source column and its Ukrainian label. The labels, transliterated: \<^verbatim>\<open>Rozmir komplektu\<close>, \<^verbatim>\<open>Dodatkovyj rozmir\<close>, \<^verbatim>\<open>Rozmir prostyradla\<close>, \<^verbatim>\<open>Rozmir navolochky\<close>, \<^verbatim>\<open>Rozmir pidkovdry\<close>, \<^verbatim>\<open>Typ tkanyny\<close>, \<^verbatim>\<open>Sklad\<close>, \<^verbatim>\<open>Shchilnist\<close>, \<^verbatim>\<open>Kolir\<close>, \<^verbatim>\<open>Krayina vyrobnyk\<close>, \<^verbatim>\<open>Krayina reiestratsiyi brendu\<close>, \<^verbatim>\<open>Vyrobnyk\<close>, \<^verbatim>\<open>Prostyradlo\<close>, \<^verbatim>\<open>Navolochka\<close>, \<^verbatim>\<open>Osoblyvist navolochok\<close>, \<^verbatim>\<open>Prostyradlo na rezyntsi\<close>, \<^verbatim>\<open>Podarunkova upakovka\<close>, \<^verbatim>\<open>Dostupni komplektatsiyi\<close>, \<^verbatim>\<open>Tkanyna A (verkh kovdry)\<close>, \<^verbatim>\<open>Tkanyna B (prostyradlo)\<close>, \<^verbatim>\<open>Bonus\<close>.\<close>

definition SRC_params_primary_1_1 :: "(ustring \<times> ustring) list" where
  "SRC_params_primary_1_1 =
     [(u ''size of the set'',
       [1056, 1086, 1079, 1084, 1110, 1088, 32, 1082, 1086, 1084, 1087, 1083, 1077, 1082, 1090, 1091]),
      (u ''size extra'',
       [1044, 1086, 1076, 1072, 1090, 1082, 1086, 1074, 1080, 1081, 32, 1088, 1086, 1079, 1084, 1110, 1088]),
      (u ''sheet size'',
       [1056, 1086, 1079, 1084, 1110, 1088, 32, 1087, 1088, 1086, 1089, 1090, 1080, 1088, 1072, 1076, 1083, 1072]),
      (u ''size of the pillowcase'',
       [1056, 1086, 1079, 1084, 1110, 1088, 32, 1085, 1072, 1074, 1086, 1083, 1086, 1095, 1082, 1080]),
      (u ''dimensions of the duvet cover'',
       [1056, 1086, 1079, 1084, 1110, 1088, 32, 1087, 1110, 1076, 1082, 1086, 1074, 1076, 1088, 1080]),
      (u ''fabric type'',
       [1058, 1080, 1087, 32, 1090, 1082, 1072, 1085, 1080, 1085, 1080]),
      (u ''composition'',
       [1057, 1082, 1083, 1072, 1076]),
      (u ''density'',
       [1065, 1110, 1083, 1100, 1085, 1110, 1089, 1090, 1100]),
      (u ''color'',
       [1050, 1086, 1083, 1110, 1088]),
      (u ''country of manufacture'',
       [1050, 1088, 1072, 1111, 1085, 1072, 32, 1074, 1080, 1088, 1086, 1073, 1085, 1080, 1082]),
      (u ''brand registration country'',
       [1050, 1088, 1072, 1111, 1085, 1072, 32, 1088, 1077, 1108, 1089, 1090, 1088, 1072, 1094, 1110, 1111, 32, 1073, 1088, 1077, 1085, 1076, 1091]),
      (u ''producer'',
       [1042, 1080, 1088, 1086, 1073, 1085, 1080, 1082]),
      (u ''sheet'',
       [1055, 1088, 1086, 1089, 1090, 1080, 1088, 1072, 1076, 1083, 1086]),
      (u ''pillowcase'',
       [1053, 1072, 1074, 1086, 1083, 1086, 1095, 1082, 1072]),
      (u ''a feature of pillowcases'',
       [1054, 1089, 1086, 1073, 1083, 1080, 1074, 1110, 1089, 1090, 1100, 32, 1085, 1072, 1074, 1086, 1083, 1086, 1095, 1086, 1082]),
      (u ''sheet with elastic band'',
       [1055, 1088, 1086, 1089, 1090, 1080, 1088, 1072, 1076, 1083, 1086, 32, 1085, 1072, 32, 1088, 1077, 1079, 1080, 1085, 1094, 1110]),
      (u ''gift packaging'',
       [1055, 1086, 1076, 1072, 1088, 1091, 1085, 1082, 1086, 1074, 1072, 32, 1091, 1087, 1072, 1082, 1086, 1074, 1082, 1072]),
      (u ''available layout options'',
       [1044, 1086, 1089, 1090, 1091, 1087, 1085, 1110, 32, 1082, 1086, 1084, 1087, 1083, 1077, 1082, 1090, 1072, 1094, 1110, 1111]),
      (u ''fabrics \"a\" (top of the quilt)'',
       [1058, 1082, 1072, 1085, 1080, 1085, 1072, 32, 65, 32, 40, 1074, 1077, 1088, 1093, 32, 1082, 1086, 1074, 1076, 1088, 1080, 41]),
      (u ''fabrics \"b\" (bed sheet)'',
       [1058, 1082, 1072, 1085, 1080, 1085, 1072, 32, 66, 32, 40, 1087, 1088, 1086, 1089, 1090, 1080, 1088, 1072, 1076, 1083, 1086, 41]),
      (u ''bonus'',
       [1041, 1086, 1085, 1091, 1089])]"

text \<open>\<^verbatim>\<open>SRC["params_primary"]\<close> of \<^verbatim>\<open>bot_1_2.py\<close>: the same source columns, four labels changed. The labels, transliterated: \<^verbatim>\<open>Typ komplekta\<close>, \<^verbatim>\<open>Dodatkovyj rozmir\<close>, \<^verbatim>\<open>Rozmir prostyradla\<close>, \<^verbatim>\<open>Rozmir navolochky\<close>, \<^verbatim>\<open>Rozmir pidkovdry\<close>, \<^verbatim>\<open>Typ tkanyny\<close>, \<^verbatim>\<open>Sklad\<close>, \<^verbatim>\<open>Shchilnist\<close>, \<^verbatim>\<open>Tsv\<close>, \<^verbatim>\<open>Strana proyzvodytel\<close>, \<^verbatim>\<open>Krayina reiestratsiyi brendu\<close>, \<^verbatim>\<open>Proyzvodytel\<close>, \<^verbatim>\<open>Prostyradlo\<close>, \<^verbatim>\<open>Navolochka\<close>, \<^verbatim>\<open>Osoblyvist navolochok\<close>, \<^verbatim>\<open>Prostyradlo na rezyntsi\<close>, \<^verbatim>\<open>Podarunkova upakovka\<close>, \<^verbatim>\<open>Dostupni komplektatsiyi\<close>, \<^verbatim>\<open>Tkanyna A (verkh kovdry)\<close>, \<^verbatim>\<open>Tkanyna B (prostyradlo)\<close>, \<^verbatim>\<open>Bonus\<close>.\<close>

definition SRC_params_primary_1_2 :: "(ustring \<times> ustring) list" where
  "SRC_params_primary_1_2 =
     [(u ''size of the set'',
       [1058, 1080, 1087, 32, 1082, 1086, 1084, 1087, 1083, 1077, 1082, 1090, 1072]),
      (u ''size extra'',
       [1044, 1086, 1076, 1072, 1090, 1082, 1086, 1074, 1080, 1081, 32, 1088, 1086, 1079, 1084, 1110, 1088]),
      (u ''sheet size'',
       [1056, 1086, 1079, 1084, 1110, 1088, 32, 1087, 1088, 1086, 1089, 1090, 1080, 1088, 1072, 1076, 1083, 1072]),
      (u ''size of the pillowcase'',
       [1056, 1086, 1079, 1084, 1110, 1088, 32, 1085, 1072, 1074, 1086, 1083, 1086, 1095, 1082, 1080]),
      (u ''dimensions of the duvet cover'',
       [1056, 1086, 1079, 1084, 1110, 1088, 32, 1087, 1110, 1076, 1082, 1086, 1074, 1076, 1088, 1080]),
      (u ''fabric type'',
       [1058, 1080, 1087, 32, 1090, 1082, 1072, 1085, 1080, 1085, 1080]),
      (u ''composition'',
       [1057, 1082, 1083, 1072, 1076]),
      (u ''density'',
       [1065, 1110, 1083, 1100, 1085, 1110, 1089, 1090, 1100]),
      (u ''color'',
       [1062, 1074]),
      (u ''country of manufacture'',
       [1057, 1090, 1088, 1072, 1085, 1072, 32, 1087, 1088, 1086, 1080, 1079, 1074, 1086, 1076, 1080, 1090, 1077, 1083, 1100]),
      (u ''brand registration country'',
       [1050, 1088, 1072, 1111, 1085, 1072, 32, 1088, 1077, 1108, 1089, 1090, 1088, 1072, 1094, 1110, 1111, 32, 1073, 1088, 1077, 1085, 1076, 1091]),
      (u ''producer'',
       [1055, 1088, 1086, 1080, 1079, 1074, 1086, 1076, 1080, 1090, 1077, 1083, 1100]),
      (u ''sheet'',
       [1055, 1088, 1086, 1089, 1090, 1080, 1088, 1072, 1076, 1083, 1086]),
      (u ''pillowcase'',
       [1053, 1072, 1074, 1086, 1083, 1086, 1095, 1082, 1072]),
      (u ''a feature of pillowcases'',
       [1054, 1089, 1086, 1073, 1083, 1080, 1074, 1110, 1089, 1090, 1100, 32, 1085, 1072, 1074, 1086, 1083, 1086, 1095, 1086, 1082]),
      (u ''sheet with elastic band'',
       [1055, 1088, 1086, 1089, 1090, 1080, 1088, 1072, 1076, 1083, 1086, 32, 1085, 1072, 32, 1088, 1077, 1079, 1080, 1085, 1094, 1110]),
      (u ''gift packaging'',
       [1055, 1086, 1076, 1072, 1088, 1091, 1085, 1082, 1086, 1074, 1072, 32, 1091, 1087, 1072, 1082, 1086, 1074, 1082, 1072]),
      (u ''available layout options'',
       [1044, 1086, 1089, 1090, 1091, 1087, 1085, 1110, 32, 1082, 1086, 1084, 1087, 1083, 1077, 1082, 1090, 1072, 1094, 1110, 1111]),
      (u ''fabrics \"a\" (top of the quilt)'',
       [1058, 1082, 1072, 1085, 1080, 1085, 1072, 32, 65, 32, 40, 1074, 1077, 1088, 1093, 32, 1082, 1086, 1074, 1076, 1088, 1080, 41]),
      (u ''fabrics \"b\" (bed sheet)'',
       [1058, 1082, 1072, 1085, 1080, 1085, 1072, 32, 66, 32, 40, 1087, 1088, 1086, 1089, 1090, 1080, 1088, 1072, 1076, 1083, 1086, 41]),
      (u ''bonus'',
       [1041, 1086, 1085, 1091, 1089])]"

text \<open>The Cyrillic column names the functions use, each under its transliteration.\<close>

definition kod :: ustring where
  "kod = [1082, 1086, 1076]"

definition nazvanie :: ustring where
  "nazvanie = [1085, 1072, 1079, 1074, 1072, 1085, 1080, 1077]"

definition nazva :: ustring where
  "nazva = [1085, 1072, 1079, 1074, 1072]"

definition opisanie :: ustring where
  "opisanie = [1086, 1087, 1080, 1089, 1072, 1085, 1080, 1077]"

definition opis :: ustring where
  "opis = [1086, 1087, 1080, 1089]"

definition Kod_tovaru :: ustring where
  "Kod_tovaru = [1050, 1086, 1076, 95, 1090, 1086, 1074, 1072, 1088, 1091]"

definition Nazva_pozytsii :: ustring where
  "Nazva_pozytsii = [1053, 1072, 1079, 1074, 1072, 95, 1087, 1086, 1079, 1080, 1094, 1110, 1111]"

definition Nazva_pozytsii_ukr :: ustring where
  "Nazva_pozytsii_ukr = [1053, 1072, 1079, 1074, 1072, 95, 1087, 1086, 1079, 1080, 1094, 1110, 1111, 95, 1091, 1082, 1088]"

definition Opys :: ustring where
  "Opys = [1054, 1087, 1080, 1089]"

definition Opys_ukr :: ustring where
  "Opys_ukr = [1054, 1087, 1080, 1089, 95, 1091, 1082, 1088]"

definition Tsina :: ustring where
  "Tsina = [1062, 1110, 1085, 1072]"

definition Valiuta :: ustring where
  "Valiuta = [1042, 1072, 1083, 1102, 1090, 1072]"

definition Kilkist :: ustring where
  "Kilkist = [1050, 1110, 1083, 1100, 1082, 1110, 1089, 1090, 1100]"

definition Posylannia_zobrazhennia :: ustring where
  "Posylannia_zobrazhennia = [1055, 1086, 1089, 1080, 1083, 1072, 1085, 1085, 1103, 95, 1079, 1086, 1073, 1088, 1072, 1078, 1077, 1085, 1085, 1103]"

definition Kliuchovi_frazy :: ustring where
  "Kliuchovi_frazy = [1050, 1083, 1102, 1095, 1086, 1074, 1110, 95, 1092, 1088, 1072, 1079, 1080]"

definition Nazva_Kharakterystyky :: ustring where
  "Nazva_Kharakterystyky = [1053, 1072, 1079, 1074, 1072, 95, 1061, 1072, 1088, 1072, 1082, 1090, 1077, 1088, 1080, 1089, 1090, 1080, 1082, 1080]"

definition Odynytsia_vymiru_Kharakterystyky :: ustring where
  "Odynytsia_vymiru_Kharakterystyky = [1054, 1076, 1080, 1085, 1080, 1094, 1103, 95, 1074, 1080, 1084, 1110, 1088, 1091, 95, 1061, 1072, 1088, 1072, 1082, 1090, 1077, 1088, 1080, 1089, 1090, 1080, 1082, 1080]"

definition Znachennia_Kharakterystyky :: ustring where
  "Znachennia_Kharakterystyky = [1047, 1085, 1072, 1095, 1077, 1085, 1085, 1103, 95, 1061, 1072, 1088, 1072, 1082, 1090, 1077, 1088, 1080, 1089, 1090, 1080, 1082, 1080]"

definition Vaha_kg :: ustring where
  "Vaha_kg = [1042, 1072, 1075, 1072, 44, 1082, 1075]"

definition Shyryna_sm :: ustring where
  "Shyryna_sm = [1064, 1080, 1088, 1080, 1085, 1072, 44, 1089, 1084]"

definition Vysota_sm :: ustring where
  "Vysota_sm = [1042, 1080, 1089, 1086, 1090, 1072, 44, 1089, 1084]"

definition Dovzhyna_sm :: ustring where
  "Dovzhyna_sm = [1044, 1086, 1074, 1078, 1080, 1085, 1072, 44, 1089, 1084]"

definition CURRENCY :: ustring where
  "CURRENCY = u ''UAH''"

text \<open>The name of the join column, \<^verbatim>\<open>"_id"\<close>.\<close>

definition id_col :: ustring where
  "id_col = u ''_id''"

text \<open>
  \<^verbatim>\<open>f"{prefix}_{i}"\<close>, and the characteristic columns of \<^verbatim>\<open>PROM_XLS_COLS\<close>: for each
  \<open>i\<close> of \<^verbatim>\<open>range(lo, hi)\<close> the name, the unit and the value column.
\<close>

definition fmt_col :: "ustring \<Rightarrow> nat \<Rightarrow> ustring" where
  "fmt_col prefix i = prefix @ [95] @ digits_of i"

definition characteristic_cols :: "nat \<Rightarrow> nat \<Rightarrow> ustring list" where
  "characteristic_cols lo hi =
     concat (map (\<lambda>i. map (\<lambda>prefix. fmt_col prefix i)
                    [Nazva_Kharakterystyky, Odynytsia_vymiru_Kharakterystyky,
                     Znachennia_Kharakterystyky])
               [lo..<hi])"

text \<open>\<^verbatim>\<open>PROM_XLS_COLS\<close> of \<^verbatim>\<open>bot_1_0.py\<close>: 13 columns and 15 characteristic groups.\<close>

definition PROM_XLS_COLS_1_0 :: "ustring list" where
  "PROM_XLS_COLS_1_0 =
     [Kod_tovaru, Nazva_pozytsii, Nazva_pozytsii_ukr, Opys, Opys_ukr, Tsina, Valiuta,
      Kilkist, Posylannia_zobrazhennia, Vaha_kg, Shyryna_sm, Vysota_sm, Dovzhyna_sm]
     @ characteristic_cols 1 16"

text \<open>\<^verbatim>\<open>PROM_XLS_COLS\<close> of \<^verbatim>\<open>bot_1_1.py\<close>: 9 columns and 20 characteristic groups.\<close>

definition PROM_XLS_COLS_1_1 :: "ustring list" where
  "PROM_XLS_COLS_1_1 =
     [Kod_tovaru, Nazva_pozytsii, Nazva_pozytsii_ukr, Opys, Opys_ukr, Tsina, Valiuta,
      Kilkist, Posylannia_zobrazhennia]
     @ characteristic_cols 1 21"

text \<open>\<^verbatim>\<open>PROM_XLS_COLS\<close> of \<^verbatim>\<open>bot_1_2.py\<close>: 10 columns and 20 characteristic groups.\<close>

definition PROM_XLS_COLS_1_2 :: "ustring list" where
  "PROM_XLS_COLS_1_2 =
     [Kod_tovaru, Nazva_pozytsii, Nazva_pozytsii_ukr, Opys, Opys_ukr, Tsina, Valiuta,
      Kilkist, Posylannia_zobrazhennia, Kliuchovi_frazy]
     @ characteristic_cols 1 21"

section \<open>The utilities\<close>

text \<open>
  The functions below are those of \<^verbatim>\<open>bot_1_0.py\<close>, \<^verbatim>\<open>bot_1_1.py\<close> and \<^verbatim>\<open>bot_1_2.py\<close>; a
  function that differs between the versions carries the version as a suffix.
  What a function prints is not modelled.
\<close>

definition normalize_df :: "dataframe \<Rightarrow> dataframe" where
  "normalize_df df = df\<lparr>columns := map (\<lambda>c. str_lower (strip c)) (columns df)\<rparr>"

definition find_first_col :: "dataframe \<Rightarrow> ustring list \<Rightarrow> ustring option" where
  "find_first_col df candidates = find (\<lambda>c. c \<in> set (columns df)) candidates"

text \<open>
  \<^verbatim>\<open>build_image_list\<close>, the same in the three versions but for the list
  \<^verbatim>\<open>SRC["photos"]\<close> it reads, which is the parameter \<open>photos\<close>. \<open>photo_parts\<close> is
  what one column adds to \<^verbatim>\<open>urls\<close>.
\<close>

definition photo_parts :: "series \<Rightarrow> ustring \<Rightarrow> ustring list" where
  "photo_parts row col =
     (case map_of row col of
        None \<Rightarrow> []
      | Some v \<Rightarrow>
          if notna v
          then map strip (filter (\<lambda>p. strip p \<noteq> []) (str_split 44 (str_cell v)))
          else [])"

definition build_image_list :: "ustring list \<Rightarrow> series \<Rightarrow> ustring list" where
  "build_image_list photos row = take 10 (fromkeys (concat (map (photo_parts row) photos)))"

text \<open>The text \<^verbatim>\<open>pick_price\<close> hands to \<^verbatim>\<open>float\<close>: \<^verbatim>\<open>str(v).replace(",", ".").strip()\<close>.\<close>

definition price_text :: "cell \<Rightarrow> ustring" where
  "price_text v = strip (str_replace 44 [46] (str_cell v))"

text \<open>
  \<^verbatim>\<open>pick_price\<close> of \<^verbatim>\<open>bot_1_1.py\<close> and \<^verbatim>\<open>bot_1_2.py\<close>: the loop over the aliases returns
  at the first column that is present and not \<^verbatim>\<open>NaN\<close>, with the float or, from the
  \<^verbatim>\<open>except\<close> branch, with \<^verbatim>\<open>None\<close>.
\<close>

fun pick_price_1_1_loop :: "series \<Rightarrow> ustring list \<Rightarrow> pyfloat option" where
  "pick_price_1_1_loop row [] = None"
| "pick_price_1_1_loop row (c # cs) =
     (case map_of row c of
        None \<Rightarrow> pick_price_1_1_loop row cs
      | Some v \<Rightarrow>
          if notna v then py_float (price_text v)
          else pick_price_1_1_loop row cs)"

definition pick_price_1_1 :: "series \<Rightarrow> pyfloat option" where
  "pick_price_1_1 row = pick_price_1_1_loop row SRC_price"

text \<open>
  \<^verbatim>\<open>pick_price\<close> of \<^verbatim>\<open>bot_1_0.py\<close>: the \<^verbatim>\<open>except ValueError\<close> branch prints and the loop
  goes on to the next alias.
\<close>

fun pick_price_1_0_loop :: "series \<Rightarrow> ustring list \<Rightarrow> pyfloat option" where
  "pick_price_1_0_loop row [] = None"
| "pick_price_1_0_loop row (c # cs) =
     (case map_of row c of
        None \<Rightarrow> pick_price_1_0_loop row cs
      | Some v \<Rightarrow>
          if notna v then
            (case py_float (price_text v) of
               Some price \<Rightarrow> Some price
             | None \<Rightarrow> pick_price_1_0_loop row cs)
          else pick_price_1_0_loop row cs)"

definition pick_price_1_0 :: "series \<Rightarrow> pyfloat option" where
  "pick_price_1_0 row = pick_price_1_0_loop row SRC_price"

section \<open>The merge\<close>

text \<open>\<^verbatim>\<open>column.astype(str).str.strip()\<close> and \<^verbatim>\<open>column.astype(str)\<close>\<close>

definition astype_str_strip :: "cell list \<Rightarrow> cell list" where
  "astype_str_strip vs = map (\<lambda>v. Str (strip (str_cell v))) vs"

definition astype_str :: "cell list \<Rightarrow> cell list" where
  "astype_str vs = map (\<lambda>v. Str (str_cell v)) vs"

text \<open>
  A step that can raise: the exception leaves the function, a value goes on into
  the rest of it.
\<close>

definition ebind :: "py_error + 'a \<Rightarrow> ('a \<Rightarrow> py_error + 'b) \<Rightarrow> py_error + 'b" where
  "ebind m f = (case m of Inl e \<Rightarrow> Inl e | Inr x \<Rightarrow> f x)"

text \<open>
  \<^verbatim>\<open>merge_ru_ua\<close> of \<^verbatim>\<open>bot_1_1.py\<close>. Each \<^verbatim>\<open>df[c]\<close> can raise \<^verbatim>\<open>KeyError\<close>, in the order
  of the source.
\<close>

definition merge_ru_ua_1_1 :: "dataframe \<Rightarrow> dataframe \<Rightarrow> py_error + dataframe" where
  "merge_ru_ua_1_1 df_ru0 df_ua0 =
     (let df_ru = normalize_df df_ru0;
          df_ua = normalize_df df_ua0;
          col_id_ru = py_or (find_first_col df_ru SRC_id) kod;
          col_id_ua = py_or (find_first_col df_ua SRC_id) kod;
          col_name_ru = py_or (find_first_col df_ru SRC_name) nazvanie;
          col_name_ua = py_or (find_first_col df_ua SRC_name) nazva
      in
      ebind (get_col df_ru col_id_ru) (\<lambda>ids_ru.
      let df_ru = set_col df_ru id_col (astype_str_strip ids_ru) in
      ebind (get_col df_ua col_id_ua) (\<lambda>ids_ua.
      let df_ua = set_col df_ua id_col (astype_str_strip ids_ua) in
      ebind (select_cols df_ua [id_col, col_name_ua]) (\<lambda>ua0.
      let ua = rename_cols ua0 [(col_name_ua, Nazva_pozytsii_ukr)];
          merged = merge_left df_ru ua id_col in
      ebind (get_col merged col_name_ru) (\<lambda>names.
      let merged = set_col merged Nazva_pozytsii (astype_str names) in
      ebind (get_col merged id_col) (\<lambda>ids.
      Inr (set_col merged Kod_tovaru ids)))))))"

text \<open>
  \<^verbatim>\<open>merge_ru_ua\<close> of \<^verbatim>\<open>bot_1_0.py\<close>: when an identifier column is not found in one of
  the tables (\<^verbatim>\<open>not col_id_ru or not col_id_ua\<close>) it prints an error line and returns
  the normalised \<^verbatim>\<open>df_ru\<close>. The empty string stands for the \<^verbatim>\<open>None\<close> of
  \<^verbatim>\<open>find_first_col\<close> here: both are false, and no alias is empty.
\<close>

definition merge_ru_ua_1_0 :: "dataframe \<Rightarrow> dataframe \<Rightarrow> py_error + dataframe" where
  "merge_ru_ua_1_0 df_ru0 df_ua0 =
     (let df_ru = normalize_df df_ru0;
          df_ua = normalize_df df_ua0;
          col_id_ru = py_or (find_first_col df_ru SRC_id) [];
          col_id_ua = py_or (find_first_col df_ua SRC_id) []
      in
      if col_id_ru = [] \<or> col_id_ua = [] then Inr df_ru
      else
      let col_name_ru = py_or (find_first_col df_ru SRC_name) nazvanie;
          col_name_ua = py_or (find_first_col df_ua SRC_name) nazva;
          col_descr_ru = py_or (find_first_col df_ru SRC_description) opisanie;
          col_descr_ua = py_or (find_first_col df_ua SRC_description) opis
      in
      ebind (get_col df_ru col_id_ru) (\<lambda>ids_ru.
      let df_ru = set_col df_ru id_col (astype_str_strip ids_ru) in
      ebind (get_col df_ua col_id_ua) (\<lambda>ids_ua.
      let df_ua = set_col df_ua id_col (astype_str_strip ids_ua) in
      ebind (select_cols df_ua [id_col, col_name_ua, col_descr_ua]) (\<lambda>ua0.
      let ua = rename_cols ua0
                 (dict_set col_descr_ua Opys_ukr [(col_name_ua, Nazva_pozytsii_ukr)]);
          merged = merge_left df_ru ua id_col in
      ebind (get_col merged col_name_ru) (\<lambda>names.
      let merged = set_col merged Nazva_pozytsii (astype_str names) in
      ebind (get_col merged col_descr_ru) (\<lambda>descrs.
      Inr (set_col merged Opys (astype_str descrs))))))))"

text \<open>
  \<^verbatim>\<open>merged[c] = series\<close> aligns the series on the row labels. The frames come from
  \<^verbatim>\<open>read_excel\<close> and the merge, so the labels are the positions: row \<open>i\<close> takes the
  \<open>i\<close>-th value, and \<^verbatim>\<open>NaN\<close> when the series is shorter.
\<close>

definition align :: "nat \<Rightarrow> cell list \<Rightarrow> cell list" where
  "align n vs = map (\<lambda>i. if i < length vs then vs ! i else NaN) [0..<n]"

text \<open>
  \<^verbatim>\<open>merge_ru_ua\<close> of \<^verbatim>\<open>bot_1_2.py\<close>: the one of \<^verbatim>\<open>bot_1_1.py\<close>, then the two description
  columns, taken from the input frames by position, or empty when the table has
  no description column.
\<close>

definition description_col :: "dataframe \<Rightarrow> nat \<Rightarrow> py_error + cell list" where
  "description_col df n =
     (let col_desc = py_or (find_first_col df SRC_description) [] in
      if col_desc \<noteq> [] then ebind (get_col df col_desc) (\<lambda>vs. Inr (align n (astype_str vs)))
      else Inr (replicate n (Str [])))"

definition merge_ru_ua_1_2 :: "dataframe \<Rightarrow> dataframe \<Rightarrow> py_error + dataframe" where
  "merge_ru_ua_1_2 df_ru0 df_ua0 =
     (let df_ru = normalize_df df_ru0;
          df_ua = normalize_df df_ua0;
          col_id_ru = py_or (find_first_col df_ru SRC_id) kod;
          col_id_ua = py_or (find_first_col df_ua SRC_id) kod;
          col_name_ru = py_or (find_first_col df_ru SRC_name) nazvanie;
          col_name_ua = py_or (find_first_col df_ua SRC_name) nazva
      in
      ebind (get_col df_ru col_id_ru) (\<lambda>ids_ru.
      let df_ru = set_col df_ru id_col (astype_str_strip ids_ru) in
      ebind (get_col df_ua col_id_ua) (\<lambda>ids_ua.
      let df_ua = set_col df_ua id_col (astype_str_strip ids_ua) in
      ebind (select_cols df_ua [id_col, col_name_ua]) (\<lambda>ua0.
      let ua = rename_cols ua0 [(col_name_ua, Nazva_pozytsii_ukr)];
          merged = merge_left df_ru ua id_col in
      ebind (get_col merged col_name_ru) (\<lambda>names.
      let merged = set_col merged Nazva_pozytsii (astype_str names) in
      ebind (get_col merged id_col) (\<lambda>ids.
      let merged = set_col merged Kod_tovaru ids in
      ebind (description_col df_ru (length (data merged))) (\<lambda>descrs_ru.
      let merged = set_col merged Opys descrs_ru in
      ebind (description_col df_ua (length (data merged))) (\<lambda>descrs_ua.
      Inr (set_col merged Opys_ukr descrs_ua)))))))))"

section \<open>The tabular exporter\<close>

text \<open>
  The characteristics of a row: for each pair of \<^verbatim>\<open>SRC["params_primary"]\<close>, in order,
  whose source column is present, not \<^verbatim>\<open>NaN\<close> and not blank, the triplet of the
  label, an empty unit and the trimmed value.
\<close>

type_synonym triplet = "ustring \<times> ustring \<times> ustring"

definition triplets_of :: "(ustring \<times> ustring) list \<Rightarrow> series \<Rightarrow> triplet list" where
  "triplets_of params r =
     concat (map (\<lambda>(eng, uk).
       (case map_of r eng of
          None \<Rightarrow> []
        | Some v \<Rightarrow>
            if notna v then
              (let val = strip (str_cell v) in if val \<noteq> [] then [(uk, [], val)] else [])
            else []))
       params)"

text \<open>
  \<^verbatim>\<open>for i, (nm, unit, val) in enumerate(triplets, start=i): item[...] = ...\<close>: three
  assignments for each triplet.
\<close>

fun fill_triplets :: "nat \<Rightarrow> triplet list \<Rightarrow> series \<Rightarrow> series" where
  "fill_triplets i [] item = item"
| "fill_triplets i ((nm, unit, val) # ts) item =
     fill_triplets (Suc i) ts
       (dict_set (fmt_col Znachennia_Kharakterystyky i) (Str val)
         (dict_set (fmt_col Odynytsia_vymiru_Kharakterystyky i) (Str unit)
           (dict_set (fmt_col Nazva_Kharakterystyky i) (Str nm) item)))"

text \<open>\<^verbatim>\<open>pick_price(r) or ''\<close>: the float when it is true, the empty string otherwise.\<close>

definition price_or_empty :: "pyfloat option \<Rightarrow> cell" where
  "price_or_empty p =
     (case p of None \<Rightarrow> Str [] | Some x \<Rightarrow> if float_bool x then Flt x else Str [])"

text \<open>
  The body of the loop of \<^verbatim>\<open>to_prom_excel\<close> in \<^verbatim>\<open>bot_1_0.py\<close>: \<open>None\<close> is the
  \<^verbatim>\<open>continue\<close> of a row with a blank identifier.
\<close>

definition excel_item_1_0 :: "ustring \<Rightarrow> ustring \<Rightarrow> series \<Rightarrow> series option" where
  "excel_item_1_0 col_id col_qty r =
     (let pid = strip (str_cell (series_get r col_id (Str []))) in
      if pid = [] then None
      else
        let item = map (\<lambda>c. (c, Str [])) PROM_XLS_COLS_1_0;
            item = dict_set Kod_tovaru (Str (take 25 pid)) item;
            item = dict_set Nazva_pozytsii (series_get r Nazva_pozytsii (Str [])) item;
            item = dict_set Nazva_pozytsii_ukr (series_get r Nazva_pozytsii_ukr (Str [])) item;
            item = dict_set Opys (series_get r Opys (Str [])) item;
            item = dict_set Opys_ukr (series_get r Opys_ukr (Str [])) item;
            item = dict_set Tsina (price_or_empty (pick_price_1_0 r)) item;
            item = dict_set Valiuta (Str CURRENCY) item;
            item = dict_set Kilkist (series_get r col_qty (Str [])) item;
            item = dict_set Posylannia_zobrazhennia
                     (Str (str_join (u '', '') (build_image_list SRC_photos_1_0 r))) item
        in Some (fill_triplets 1 (take 15 (triplets_of SRC_params_primary_1_1 r)) item))"

definition to_prom_excel_1_0 :: "dataframe \<Rightarrow> dataframe" where
  "to_prom_excel_1_0 df =
     (let col_id = py_or (find_first_col df SRC_id) kod;
          col_qty = py_or (find_first_col df SRC_qty) (u ''quantity'')
      in DataFrame_columns (List.map_filter (excel_item_1_0 col_id col_qty) (iterrows df))
           PROM_XLS_COLS_1_0)"

text \<open>\<^verbatim>\<open>to_prom_excel\<close> of \<^verbatim>\<open>bot_1_1.py\<close>: every row gives an item.\<close>

definition excel_item_1_1 :: "ustring \<Rightarrow> series \<Rightarrow> series" where
  "excel_item_1_1 col_qty r =
     (let item = map (\<lambda>c. (c, Str [])) PROM_XLS_COLS_1_1;
          item = dict_set Kod_tovaru (series_get r Kod_tovaru (Str [])) item;
          item = dict_set Nazva_pozytsii (series_get r Nazva_pozytsii (Str [])) item;
          item = dict_set Nazva_pozytsii_ukr (series_get r Nazva_pozytsii_ukr (Str [])) item;
          item = dict_set Tsina (price_or_empty (pick_price_1_1 r)) item;
          item = dict_set Valiuta (Str CURRENCY) item;
          item = dict_set Kilkist (series_get r col_qty (Str [])) item;
          item = dict_set Posylannia_zobrazhennia
                   (Str (str_join (u '', '') (build_image_list SRC_photos_1_1 r))) item
      in fill_triplets 1 (triplets_of SRC_params_primary_1_1 r) item)"

definition to_prom_excel_1_1 :: "dataframe \<Rightarrow> dataframe" where
  "to_prom_excel_1_1 df =
     (let col_qty = py_or (find_first_col df SRC_qty) (u ''quantity'')
      in DataFrame (map (excel_item_1_1 col_qty) (iterrows df)))"

text \<open>
  \<^verbatim>\<open>to_prom_excel\<close> of \<^verbatim>\<open>bot_1_2.py\<close>, with the optional list \<^verbatim>\<open>key_requests\<close> (\<open>None\<close>
  and the empty list are both false).
\<close>

definition excel_item_1_2 :: "ustring list option \<Rightarrow> ustring \<Rightarrow> series \<Rightarrow> series" where
  "excel_item_1_2 key_requests col_qty r =
     (let item = map (\<lambda>c. (c, Str [])) PROM_XLS_COLS_1_2;
          item = dict_set Kod_tovaru (series_get r Kod_tovaru (Str [])) item;
          item = dict_set Nazva_pozytsii (series_get r Nazva_pozytsii (Str [])) item;
          item = dict_set Nazva_pozytsii_ukr (series_get r Nazva_pozytsii_ukr (Str [])) item;
          item = dict_set Opys (series_get r Opys (Str [])) item;
          item = dict_set Opys_ukr (series_get r Opys_ukr (Str [])) item;
          item = dict_set Tsina (price_or_empty (pick_price_1_1 r)) item;
          item = dict_set Valiuta (Str CURRENCY) item;
          item = dict_set Kilkist (series_get r col_qty (Str [])) item;
          item = dict_set Posylannia_zobrazhennia
                   (Str (str_join (u '', '') (build_image_list SRC_photos_1_1 r))) item;
          item = (case key_requests of
                    None \<Rightarrow> item
                  | Some ks \<Rightarrow>
                      if ks = [] then item
                      else dict_set Kliuchovi_frazy (Str (str_join (u '', '') ks)) item)
      in fill_triplets 1 (triplets_of SRC_params_primary_1_2 r) item)"

definition to_prom_excel_1_2 :: "dataframe \<Rightarrow> ustring list option \<Rightarrow> dataframe" where
  "to_prom_excel_1_2 df key_requests =
     (let col_qty = py_or (find_first_col df SRC_qty) (u ''quantity'')
      in DataFrame (map (excel_item_1_2 key_requests col_qty) (iterrows df)))"

section \<open>The tree exporter\<close>

text \<open>
  An element of \<^verbatim>\<open>xml.etree.ElementTree\<close>: its tag, its attributes in insertion order,
  its text (\<open>None\<close> when never set) and its children. \<open>ET_tostring\<close> is
  \<^verbatim>\<open>ET.tostring(e, encoding='utf-8').decode('utf-8')\<close> as CPython 3.8 and later
  serialise: no declaration, text and attribute values escaped, an element with
  neither text nor children written \<^verbatim>\<open><tag />\<close>.
\<close>

datatype element = Element ustring "(ustring \<times> ustring) list" "ustring option" "element list"

definition escape_cdata :: "ustring \<Rightarrow> ustring" where
  "escape_cdata t =
     str_replace 62 (u ''&gt;'') (str_replace 60 (u ''&lt;'') (str_replace 38 (u ''&amp;'') t))"

definition escape_attrib :: "ustring \<Rightarrow> ustring" where
  "escape_attrib t =
     str_replace 9 (u ''&#09;'') (str_replace 10 (u ''&#10;'') (str_replace 13 (u ''&#13;'')
       (str_replace 34 (u ''&quot;'') (escape_cdata t))))"

fun ET_tostring :: "element \<Rightarrow> ustring" where
  "ET_tostring (Element tag attrib text kids) =
     [60] @ tag @
     concat (map (\<lambda>(k, v). [32] @ k @ [61, 34] @ escape_attrib v @ [34]) attrib) @
     (if (case text of None \<Rightarrow> False | Some t \<Rightarrow> t \<noteq> []) \<or> kids \<noteq> [] then
        [62] @ (case text of None \<Rightarrow> [] | Some t \<Rightarrow> escape_cdata t) @
        concat (map ET_tostring kids) @ [60, 47] @ tag @ [62]
      else u '' />'')"

text \<open>\<^verbatim>\<open>ET.SubElement(parent, tag).text = t\<close>: a child with text and nothing else.\<close>

definition text_element :: "ustring \<Rightarrow> ustring \<Rightarrow> element" where
  "text_element tag t = Element tag [] (Some t) []"

text \<open>The document: the declaration line, then the catalogue around the offers.\<close>

definition yml_document :: "element list \<Rightarrow> ustring" where
  "yml_document offers =
     u ''<?xml version=\"1.0\" encoding=\"UTF-8\"?>'' @ [10] @
     ET_tostring (Element (u ''yml_catalog'') [] None
       [Element (u ''shop'') [] None [Element (u ''offers'') [] None offers]])"

text \<open>
  \<^verbatim>\<open>to_prom_yml\<close> of \<^verbatim>\<open>bot_1_0.py\<close>: the four name and description children are always
  written, with \<^verbatim>\<open>str(...)\<close> of the cell as text; the price only when it is true.
\<close>

definition offer_1_0 :: "ustring \<Rightarrow> ustring \<Rightarrow> series \<Rightarrow> element option" where
  "offer_1_0 col_id col_qty r =
     (let base_id = strip (str_cell (series_get r col_id (Str []))) in
      if base_id = [] then None
      else
        Some (Element (u ''offer'') [(u ''id'', base_id), (u ''available'', u ''true'')] None
          ([text_element (u ''name'') (str_cell (series_get r Nazva_pozytsii (Str []))),
            text_element (u ''name_ua'') (str_cell (series_get r Nazva_pozytsii_ukr (Str []))),
            text_element (u ''description'') (str_cell (series_get r Opys (Str []))),
            text_element (u ''description_ua'') (str_cell (series_get r Opys_ukr (Str [])))] @
           (case pick_price_1_0 r of
              None \<Rightarrow> []
            | Some price \<Rightarrow>
                if float_bool price then [text_element (u ''price'') (str_float price)]
                else []) @
           [text_element (u ''currencyId'') CURRENCY] @
           (case map_of r col_qty of
              None \<Rightarrow> []
            | Some qty \<Rightarrow>
                if notna qty then [text_element (u ''quantity_in_stock'') (str_cell qty)]
                else []) @
           map (\<lambda>url. text_element (u ''picture'') url) (build_image_list SRC_photos_1_0 r))))"

definition to_prom_yml_1_0 :: "dataframe \<Rightarrow> ustring" where
  "to_prom_yml_1_0 df =
     (let col_id = py_or (find_first_col df SRC_id) kod;
          col_qty = py_or (find_first_col df SRC_qty) (u ''quantity'')
      in yml_document (List.map_filter (offer_1_0 col_id col_qty) (iterrows df)))"

text \<open>\<^verbatim>\<open>xml_safe\<close> of \<^verbatim>\<open>bot_1_1.py\<close> and \<^verbatim>\<open>bot_1_2.py\<close>, on the \<^verbatim>\<open>str\<close> of its argument.\<close>

definition xml_safe :: "ustring \<Rightarrow> ustring" where
  "xml_safe val =
     str_replace 62 (u ''&gt;'') (str_replace 60 (u ''&lt;'') (str_replace 38 (u ''&amp;'') val))"

text \<open>The \<^verbatim>\<open>param\<close> children of an offer in \<^verbatim>\<open>bot_1_1.py\<close>.\<close>

definition yml_params :: "(ustring \<times> ustring) list \<Rightarrow> series \<Rightarrow> element list" where
  "yml_params params r =
     concat (map (\<lambda>(eng, uk).
       (case map_of r eng of
          None \<Rightarrow> []
        | Some v \<Rightarrow>
            if notna v then
              (let val = strip (str_cell v) in
               if val \<noteq> [] then [Element (u ''param'') [(u ''name'', uk)] (Some (xml_safe val)) []]
               else [])
            else []))
       params)"

text \<open>
  \<^verbatim>\<open>to_prom_yml\<close> of \<^verbatim>\<open>bot_1_1.py\<close>: a name child only for a true cell, the price
  whenever it is not \<^verbatim>\<open>None\<close>, and every text put through \<^verbatim>\<open>xml_safe\<close> before it is
  stored in the element.
\<close>

definition offer_1_1 :: "ustring \<Rightarrow> series \<Rightarrow> element option" where
  "offer_1_1 col_qty r =
     (let base_id = strip (str_cell (series_get r Kod_tovaru (Str []))) in
      if base_id = [] then None
      else
        let name = series_get r Nazva_pozytsii (Str []);
            name_ua = series_get r Nazva_pozytsii_ukr (Str []);
            price = pick_price_1_1 r;
            qty = map_of r col_qty;
            images = build_image_list SRC_photos_1_1 r
        in
        Some (Element (u ''offer'') [(u ''id'', base_id), (u ''available'', u ''true'')] None
          ((if cell_bool name then [text_element (u ''name'') (xml_safe (str_cell name))]
            else []) @
           (if cell_bool name_ua
            then [text_element (u ''name_ua'') (xml_safe (str_cell name_ua))] else []) @
           (case price of
              None \<Rightarrow> []
            | Some p \<Rightarrow> [text_element (u ''price'') (str_float p)]) @
           [text_element (u ''currencyId'') CURRENCY] @
           (case qty of
              None \<Rightarrow> []
            | Some q \<Rightarrow>
                if notna q then [text_element (u ''quantity_in_stock'') (str_cell q)]
                else []) @
           map (\<lambda>url. text_element (u ''picture'') (xml_safe url)) images @
           yml_params SRC_params_primary_1_1 r)))"

definition to_prom_yml_1_1 :: "dataframe \<Rightarrow> ustring" where
  "to_prom_yml_1_1 df =
     (let col_qty = py_or (find_first_col df SRC_qty) (u ''quantity'')
      in yml_document (List.map_filter (offer_1_1 col_qty) (iterrows df)))"

section \<open>The pipeline\<close>

text \<open>
  The two lines of the handler \<^verbatim>\<open>receive_file\<close> that produce the artifact: the merge,
  then the exporter of the chosen format. An exception of the merge leaves both.
\<close>

definition generate_xlsx_1_0 :: "dataframe \<Rightarrow> dataframe \<Rightarrow> py_error + dataframe" where
  "generate_xlsx_1_0 df_ru df_ua =
     ebind (merge_ru_ua_1_0 df_ru df_ua) (\<lambda>merged. Inr (to_prom_excel_1_0 merged))"

definition generate_yml_1_0 :: "dataframe \<Rightarrow> dataframe \<Rightarrow> py_error + ustring" where
  "generate_yml_1_0 df_ru df_ua =
     ebind (merge_ru_ua_1_0 df_ru df_ua) (\<lambda>merged. Inr (to_prom_yml_1_0 merged))"

definition generate_xlsx_1_1 :: "dataframe \<Rightarrow> dataframe \<Rightarrow> py_error + dataframe" where
  "generate_xlsx_1_1 df_ru df_ua =
     ebind (merge_ru_ua_1_1 df_ru df_ua) (\<lambda>merged. Inr (to_prom_excel_1_1 merged))"

definition generate_yml_1_1 :: "dataframe \<Rightarrow> dataframe \<Rightarrow> py_error + ustring" where
  "generate_yml_1_1 df_ru df_ua =
     ebind (merge_ru_ua_1_1 df_ru df_ua) (\<lambda>merged. Inr (to_prom_yml_1_1 merged))"

definition generate_xlsx_1_2 ::
  "dataframe \<Rightarrow> dataframe \<Rightarrow> ustring list option \<Rightarrow> py_error + dataframe" where
  "generate_xlsx_1_2 df_ru df_ua key_requests =
     ebind (merge_ru_ua_1_2 df_ru df_ua) (\<lambda>merged. Inr (to_prom_excel_1_2 merged key_requests))"

section \<open>Notions of the specification\<close>

text \<open>
  Deduplication that keeps the first occurrence of each element, in the order of
  the first occurrences: the specification's reading of the photo list.
\<close>

fun first_seen :: "'a list \<Rightarrow> 'a list" where
  "first_seen [] = []"
| "first_seen (x # xs) = x # first_seen (removeAll x xs)"


text \<open>
  A price alias has a value in a row when its column is present and the cell is
  not \<^verbatim>\<open>NaN\<close>; it has a price when, moreover, the text of the cell parses.
\<close>

definition has_value :: "series \<Rightarrow> ustring \<Rightarrow> bool" where
  "has_value row c = (case map_of row c of None \<Rightarrow> False | Some v \<Rightarrow> notna v)"

definition has_price :: "series \<Rightarrow> ustring \<Rightarrow> bool" where
  "has_price row c =
     (case map_of row c of
        None \<Rightarrow> False
      | Some v \<Rightarrow> notna v \<and> py_float (price_text v) \<noteq> None)"

text \<open>The parsed price of the column \<open>c\<close> of a row.\<close>

definition price_of :: "series \<Rightarrow> ustring \<Rightarrow> pyfloat option" where
  "price_of row c = py_float (price_text (series_get row c NaN))"

section \<open>Concrete inputs\<close>

text \<open>A row with two photo columns: a repeated address, blanks around and empty pieces.\<close>

definition photo_row :: series where
  "photo_row = [(u ''main photo'', Str (u '' http://a/1.jpg , http://a/2.jpg,,'')),
                (u ''photo1'', Str (u ''http://a/1.jpg''))]"

text \<open>A row whose first price column does not parse and whose second one does.\<close>

definition price_row :: series where
  "price_row = [(u ''special price'', Str (u ''abc'')), (u ''price'', Str (u ''19,99''))]"

text \<open>
  A base table whose identifier header, \<^verbatim>\<open>SKU\<close>, is no alias of \<^verbatim>\<open>SRC["id"]\<close>, and a
  translation table with one.
\<close>

definition ru_no_id :: dataframe where
  "ru_no_id = \<lparr>columns = [u ''SKU'', u ''Name''],
               data = [[Str (u ''42''), Str (u ''Towel'')]]\<rparr>"

definition ua_with_id :: dataframe where
  "ua_with_id = \<lparr>columns = [u ''Product code'', u ''Name''],
                 data = [[Str (u ''42''), Str (u ''Rushnyk'')]]\<rparr>"

text \<open>
  Two uploaded tables, base and translation, of one product whose name has the
  three reserved characters of XML.
\<close>

definition ru_markup :: dataframe where
  "ru_markup = \<lparr>columns = [u ''Product code'', u ''Name'', u ''Description''],
                data = [[IntV 1, Str (u ''A & B <C>''), Str (u ''soft'')]]\<rparr>"

definition ua_markup :: dataframe where
  "ua_markup = \<lparr>columns = [u ''Product code'', u ''Name'', u ''Description''],
                data = [[IntV 1, Str (u ''AB''), Str (u ''mild'')]]\<rparr>"

text \<open>Two tables of two products; the identifier of the second one is blank.\<close>

definition ru_blank :: dataframe where
  "ru_blank = \<lparr>columns = [u ''Product code'', u ''Name'', u ''Description''],
               data = [[Str (u ''42''), Str (u ''Towel''), Str (u ''soft'')],
                       [Str (u ''   ''), Str (u ''Sheet''), Str (u ''white'')]]\<rparr>"

definition ua_blank :: dataframe where
  "ua_blank = \<lparr>columns = [u ''Product code'', u ''Name'', u ''Description''],
               data = [[Str (u ''42''), Str (u ''Rushnyk''), Str (u ''mild'')]]\<rparr>"

text \<open>A product whose identifier has 30 characters.\<close>

definition ru_long :: dataframe where
  "ru_long = \<lparr>columns = [u ''Product code'', u ''Name'', u ''Description''],
              data = [[Str (u ''ABCDEFGHIJKLMNOPQRSTUVWXYZ0123''), Str (u ''Towel''),
                       Str (u ''soft'')]]\<rparr>"

definition ua_long :: dataframe where
  "ua_long = \<lparr>columns = [u ''Product code'', u ''Name'', u ''Description''],
              data = [[Str (u ''ABCDEFGHIJKLMNOPQRSTUVWXYZ0123''), Str (u ''Rushnyk''),
                       Str (u ''mild'')]]\<rparr>"

text \<open>A product whose price is zero.\<close>

definition ru_zero :: dataframe where
  "ru_zero = \<lparr>columns = [u ''Product code'', u ''Name'', u ''Description'', u ''Price''],
              data = [[Str (u ''42''), Str (u ''Towel''), Str (u ''soft''), Str (u ''0'')]]\<rparr>"

definition ua_zero :: dataframe where
  "ua_zero = \<lparr>columns = [u ''Product code'', u ''Name'', u ''Description''],
              data = [[Str (u ''42''), Str (u ''Rushnyk''), Str (u ''mild'')]]\<rparr>"

text \<open>
  A base product with the identifier 42 and a translation table that has no row
  for it.
\<close>

definition ru_42 :: dataframe where
  "ru_42 = \<lparr>columns = [u ''Product code'', u ''Name''],
            data = [[Str (u ''42''), Str (u ''Towel'')]]\<rparr>"

definition ua_7 :: dataframe where
  "ua_7 = \<lparr>columns = [u ''Product code'', u ''Name''],
           data = [[Str (u ''7''), Str (u ''Rushnyk'')]]\<rparr>"

text \<open>
  A row of a merged table with every source column of \<^verbatim>\<open>SRC["params_primary"]\<close>
  filled: 21 characteristics.
\<close>

definition row_21 :: series where
  "row_21 = (Kod_tovaru, Str (u ''42'')) #
            map (\<lambda>(eng, uk). (eng, Str (u ''yes''))) SRC_params_primary_1_1"

text \<open>The merged tables of these inputs, as the versions of \<^verbatim>\<open>merge_ru_ua\<close> return them.\<close>

definition merged_blank_1_1 :: dataframe where
  "merged_blank_1_1 =
     \<lparr>columns = [u ''product code'', u ''name'', u ''description'', id_col,
                  Nazva_pozytsii_ukr, Nazva_pozytsii, Kod_tovaru],
      data = [[Str (u ''42''), Str (u ''Towel''), Str (u ''soft''), Str (u ''42''),
               Str (u ''Rushnyk''), Str (u ''Towel''), Str (u ''42'')],
              [Str (u ''   ''), Str (u ''Sheet''), Str (u ''white''), Str [],
               NaN, Str (u ''Sheet''), Str []]]\<rparr>"

definition merged_blank_1_0 :: dataframe where
  "merged_blank_1_0 =
     \<lparr>columns = [u ''product code'', u ''name'', u ''description'', id_col,
                  Nazva_pozytsii_ukr, Opys_ukr, Nazva_pozytsii, Opys],
      data = [[Str (u ''42''), Str (u ''Towel''), Str (u ''soft''), Str (u ''42''),
               Str (u ''Rushnyk''), Str (u ''mild''), Str (u ''Towel''), Str (u ''soft'')],
              [Str (u ''   ''), Str (u ''Sheet''), Str (u ''white''), Str [],
               NaN, NaN, Str (u ''Sheet''), Str (u ''white'')]]\<rparr>"

definition merged_long_1_2 :: dataframe where
  "merged_long_1_2 =
     \<lparr>columns = [u ''product code'', u ''name'', u ''description'', id_col,
                  Nazva_pozytsii_ukr, Nazva_pozytsii, Kod_tovaru, Opys, Opys_ukr],
      data = [[Str (u ''ABCDEFGHIJKLMNOPQRSTUVWXYZ0123''), Str (u ''Towel''), Str (u ''soft''),
               Str (u ''ABCDEFGHIJKLMNOPQRSTUVWXYZ0123''), Str (u ''Rushnyk''),
               Str (u ''Towel''), Str (u ''ABCDEFGHIJKLMNOPQRSTUVWXYZ0123''),
               Str (u ''soft''), Str (u ''mild'')]]\<rparr>"

definition merged_long_1_0 :: dataframe where
  "merged_long_1_0 =
     \<lparr>columns = [u ''product code'', u ''name'', u ''description'', id_col,
                  Nazva_pozytsii_ukr, Opys_ukr, Nazva_pozytsii, Opys],
      data = [[Str (u ''ABCDEFGHIJKLMNOPQRSTUVWXYZ0123''), Str (u ''Towel''), Str (u ''soft''),
               Str (u ''ABCDEFGHIJKLMNOPQRSTUVWXYZ0123''), Str (u ''Rushnyk''),
               Str (u ''mild''), Str (u ''Towel''), Str (u ''soft'')]]\<rparr>"

definition merged_zero_1_1 :: dataframe where
  "merged_zero_1_1 =
     \<lparr>columns = [u ''product code'', u ''name'', u ''description'', u ''price'', id_col,
                  Nazva_pozytsii_ukr, Nazva_pozytsii, Kod_tovaru],
      data = [[Str (u ''42''), Str (u ''Towel''), Str (u ''soft''), Str (u ''0''),
               Str (u ''42''), Str (u ''Rushnyk''), Str (u ''Towel''), Str (u ''42'')]]\<rparr>"

definition merged_zero_1_0 :: dataframe where
  "merged_zero_1_0 =
     \<lparr>columns = [u ''product code'', u ''name'', u ''description'', u ''price'', id_col,
                  Nazva_pozytsii_ukr, Opys_ukr, Nazva_pozytsii, Opys],
      data = [[Str (u ''42''), Str (u ''Towel''), Str (u ''soft''), Str (u ''0''),
               Str (u ''42''), Str (u ''Rushnyk''), Str (u ''mild''), Str (u ''Towel''),
               Str (u ''soft'')]]\<rparr>"

definition merged_42_1_1 :: dataframe where
  "merged_42_1_1 =
     \<lparr>columns = [u ''product code'', u ''name'', id_col, Nazva_pozytsii_ukr, Nazva_pozytsii,
                  Kod_tovaru],
      data = [[Str (u ''42''), Str (u ''Towel''), Str (u ''42''), NaN, Str (u ''Towel''),
               Str (u ''42'')]]\<rparr>"

section \<open>The photo list\<close>

lemma foldl_fromkeys_step:
  "foldl (\<lambda>d k. if k \<in> set d then d else d @ [k]) acc xs =
     acc @ first_seen (filter (\<lambda>x. x \<notin> set acc) xs)"
proof (induction xs arbitrary: acc)
  case Nil
  then show ?case by simp
next
  case (Cons x xs)
  show ?case
  proof (cases "x \<in> set acc")
    case True
    then show ?thesis using Cons.IH [of acc] by simp
  next
    case False
    have "removeAll x (filter (\<lambda>y. y \<notin> set acc) xs) = filter (\<lambda>y. y \<notin> set (acc @ [x])) xs"
      by (induction xs) auto
    then show ?thesis using False Cons.IH [of "acc @ [x]"] by simp
  qed
qed

lemma fromkeys_first_seen: "fromkeys xs = first_seen xs"
  by (simp add: fromkeys_def foldl_fromkeys_step)

lemma set_first_seen: "set (first_seen xs) = set xs"
  by (induction xs rule: first_seen.induct) auto

lemma distinct_first_seen: "distinct (first_seen xs)"
  by (induction xs rule: first_seen.induct) (auto simp: set_first_seen)

text \<open>A stripped string is empty or has no white space at either end.\<close>

lemma strip_Nil_or_trimmed:
  "strip s = [] \<or> (\<not> isspace (hd (strip s)) \<and> \<not> isspace (last (strip s)))"
proof (cases "strip s = []")
  case True
  then show ?thesis by simp
next
  case False
  define t where "t = dropWhile isspace s"
  define w where "w = dropWhile isspace (rev t)"
  have s: "strip s = rev w" by (simp add: strip_def t_def w_def)
  with False have w: "w \<noteq> []" by simp
  then have hw: "\<not> isspace (hd w)" unfolding w_def by (rule hd_dropWhile)
  from w have t: "t \<noteq> []" by (auto simp: w_def)
  then have ht: "\<not> isspace (hd t)" unfolding t_def by (rule hd_dropWhile)
  have "last w = last (rev t)"
    using w unfolding w_def
    by (metis takeWhile_dropWhile_id last_appendR)
  then have "last w = hd t" using t by (simp add: last_rev)
  then show ?thesis using s w hw ht by (simp add: hd_rev last_rev)
qed

lemma photo_parts_member:
  assumes "e \<in> set (photo_parts row col)"
  shows "e \<noteq> [] \<and> (\<exists>v. map_of row col = Some v \<and> notna v \<and>
           (\<exists>p \<in> set (str_split 44 (str_cell v)). e = strip p))"
proof (cases "map_of row col")
  case None
  with assms show ?thesis by (simp add: photo_parts_def)
next
  case (Some v)
  with assms show ?thesis by (auto simp: photo_parts_def split: if_splits)
qed

text \<open>
  C7. For every row and every list of photo aliases (so for \<^verbatim>\<open>build_image_list\<close> of
  each version), the photo list has at most 10 entries, no entry twice, is the
  first 10 entries of the first-seen deduplication of what the alias columns
  give in alias order, and every entry is a non-empty piece of a comma-split,
  present, not-\<^verbatim>\<open>NaN\<close> cell of an alias column, trimmed: it has no white space at
  either end.
\<close>

theorem build_image_list_properties:
  "length (build_image_list photos row) \<le> 10 \<and>
   distinct (build_image_list photos row) \<and>
   build_image_list photos row = take 10 (first_seen (concat (map (photo_parts row) photos))) \<and>
   (\<forall>e \<in> set (build_image_list photos row).
      e \<noteq> [] \<and> \<not> isspace (hd e) \<and> \<not> isspace (last e) \<and>
      (\<exists>col \<in> set photos. \<exists>v. map_of row col = Some v \<and> notna v \<and>
         (\<exists>p \<in> set (str_split 44 (str_cell v)). e = strip p)))"
proof (intro conjI ballI)
  show "length (build_image_list photos row) \<le> 10"
    by (simp add: build_image_list_def)
  show "distinct (build_image_list photos row)"
    by (simp add: build_image_list_def fromkeys_first_seen distinct_first_seen)
  show "build_image_list photos row = take 10 (first_seen (concat (map (photo_parts row) photos)))"
    by (simp add: build_image_list_def fromkeys_first_seen)
next
  fix e assume "e \<in> set (build_image_list photos row)"
  then have "e \<in> set (concat (map (photo_parts row) photos))"
    by (auto simp: build_image_list_def fromkeys_first_seen set_first_seen dest: in_set_takeD)
  then obtain col where col: "col \<in> set photos" and e: "e \<in> set (photo_parts row col)"
    by auto
  from photo_parts_member [OF e] obtain v p where
    ne: "e \<noteq> []" and v: "map_of row col = Some v" "notna v"
    and p: "p \<in> set (str_split 44 (str_cell v))" "e = strip p"
    by blast
  from strip_Nil_or_trimmed [of p] ne p(2)
  have tr: "\<not> isspace (hd e)" "\<not> isspace (last e)" by auto
  show "e \<noteq> []" by (rule ne)
  show "\<not> isspace (hd e)" by (rule tr)
  show "\<not> isspace (last e)" by (rule tr)
  show "\<exists>col \<in> set photos. \<exists>v. map_of row col = Some v \<and> notna v \<and>
         (\<exists>p \<in> set (str_split 44 (str_cell v)). e = strip p)"
    using col v p by blast
qed

lemma photo_row_images:
  "build_image_list SRC_photos_1_1 photo_row = [u ''http://a/1.jpg'', u ''http://a/2.jpg'']"
  by (simp add: build_image_list_def photo_parts_def photo_row_def SRC_photos_1_1_def
      fromkeys_def notna_def strip_def isspace_def)

theorem build_image_list_properties_witness:
  "length (build_image_list SRC_photos_1_1 photo_row) \<le> 10 \<and>
   distinct (build_image_list SRC_photos_1_1 photo_row) \<and>
   u ''http://a/2.jpg'' \<in> set (build_image_list SRC_photos_1_1 photo_row) \<and>
   \<not> isspace (hd (u ''http://a/2.jpg'')) \<and> \<not> isspace (last (u ''http://a/2.jpg''))"
proof -
  have m: "u ''http://a/2.jpg'' \<in> set (build_image_list SRC_photos_1_1 photo_row)"
    by (simp add: photo_row_images)
  from build_image_list_properties [of SRC_photos_1_1 photo_row] m
  show ?thesis by blast
qed

section \<open>The price\<close>

lemma pick_price_1_1_loop_find:
  "pick_price_1_1_loop row cs =
     (case find (has_value row) cs of None \<Rightarrow> None | Some c \<Rightarrow> price_of row c)"
  by (induction cs) (auto simp: has_value_def price_of_def series_get_def split: option.splits)

lemma pick_price_1_0_loop_find:
  "pick_price_1_0_loop row cs =
     (case find (has_price row) cs of None \<Rightarrow> None | Some c \<Rightarrow> price_of row c)"
  by (induction cs) (auto simp: has_price_def price_of_def series_get_def split: option.splits)

lemma find_has_price_value:
  "find (has_price row) cs = Some c \<Longrightarrow> c \<in> set cs \<and> has_value row c \<and> price_of row c \<noteq> None"
  by (induction cs)
     (auto simp: has_price_def has_value_def price_of_def series_get_def
           split: if_splits option.splits)

lemma find_has_value: "find (has_value row) cs = Some c \<Longrightarrow> c \<in> set cs \<and> has_value row c"
  by (induction cs) (auto split: if_splits)

text \<open>
  C3, as amended. In \<^verbatim>\<open>bot_1_1.py\<close> and \<^verbatim>\<open>bot_1_2.py\<close> the first price alias, in the
  order of the alias list, whose column is present and not \<^verbatim>\<open>NaN\<close> governs: the
  result is \<^verbatim>\<open>float\<close> of its text (comma replaced by a period, trimmed), and it is
  \<^verbatim>\<open>None\<close> when that text does not parse or no alias has a value; no later alias
  is consulted. In \<^verbatim>\<open>bot_1_0.py\<close> a value that does not parse is passed over: the
  first alias whose value parses gives the result, \<^verbatim>\<open>None\<close> when there is none. In
  every version a price that is returned is the parsed value of a price column
  of the row, so a text that does not parse never gives zero.
\<close>

theorem pick_price_governed:
  "pick_price_1_1 row =
     (case find (has_value row) SRC_price of None \<Rightarrow> None | Some c \<Rightarrow> price_of row c) \<and>
   pick_price_1_0 row =
     (case find (has_price row) SRC_price of None \<Rightarrow> None | Some c \<Rightarrow> price_of row c) \<and>
   (\<forall>x. pick_price_1_1 row = Some x \<or> pick_price_1_0 row = Some x \<longrightarrow>
      (\<exists>c \<in> set SRC_price. has_value row c \<and> price_of row c = Some x))"
proof (intro conjI allI impI)
  show a: "pick_price_1_1 row =
     (case find (has_value row) SRC_price of None \<Rightarrow> None | Some c \<Rightarrow> price_of row c)"
    by (simp add: pick_price_1_1_def pick_price_1_1_loop_find)
  show b: "pick_price_1_0 row =
     (case find (has_price row) SRC_price of None \<Rightarrow> None | Some c \<Rightarrow> price_of row c)"
    by (simp add: pick_price_1_0_def pick_price_1_0_loop_find)
  fix x assume "pick_price_1_1 row = Some x \<or> pick_price_1_0 row = Some x"
  then show "\<exists>c \<in> set SRC_price. has_value row c \<and> price_of row c = Some x"
  proof
    assume "pick_price_1_1 row = Some x"
    with a obtain c where "find (has_value row) SRC_price = Some c" "price_of row c = Some x"
      by (auto split: option.splits)
    then show ?thesis using find_has_value by blast
  next
    assume "pick_price_1_0 row = Some x"
    with b obtain c where "find (has_price row) SRC_price = Some c" "price_of row c = Some x"
      by (auto split: option.splits)
    then show ?thesis using find_has_price_value by blast
  qed
qed

lemma price_row_special_price: "price_of price_row (u ''special price'') = None"
  by (simp add: price_of_def price_row_def series_get_def price_text_def str_replace_def
      py_float_def strip_def isspace_def isdigit_def ascii_lower_def float_exponent_def
      digits_value_def mk_fin_def strip_zeros.simps)

lemma price_row_price: "price_of price_row (u ''price'') = Some (Fin 1999 (- 2))"
  by (simp add: price_of_def price_row_def series_get_def price_text_def str_replace_def
      py_float_def strip_def isspace_def isdigit_def ascii_lower_def float_exponent_def
      digits_value_def mk_fin_def strip_zeros.simps)

lemmas price_row_values = price_row_special_price [simplified] price_row_price [simplified]

lemma price_row_first_value:
  "find (has_value price_row) SRC_price = Some (u ''special price'')"
  by (simp add: has_value_def price_row_def SRC_price_def notna_def)

lemma price_row_first_price:
  "find (has_price price_row) SRC_price = Some (u ''price'')"
proof -
  have "\<not> has_price price_row (u ''special price'')"
    using price_row_special_price
    by (simp add: has_price_def price_of_def series_get_def price_row_def)
  moreover have "has_price price_row (u ''price'')"
    using price_row_price
    by (simp add: has_price_def price_of_def series_get_def price_row_def notna_def)
  ultimately show ?thesis by (simp add: SRC_price_def)
qed

lemmas price_row_finds = price_row_first_value [simplified] price_row_first_price [simplified]

theorem pick_price_governed_witness:
  "pick_price_1_1 price_row = None \<and> pick_price_1_0 price_row = Some (Fin 1999 (- 2))"
  using pick_price_governed [of price_row]
  by (simp add: price_row_finds price_row_values)

text \<open>
  The claim as it is written fails on \<^verbatim>\<open>bot_1_0.py\<close>: the first alias with a value,
  \<^verbatim>\<open>special price\<close>, does not parse, and the price is taken from the later alias
  \<^verbatim>\<open>price\<close>.
\<close>

theorem pick_price_1_0_backfills:
  "find (has_value price_row) SRC_price = Some (u ''special price'') \<and>
   price_of price_row (u ''special price'') = None \<and>
   pick_price_1_0 price_row = Some (Fin 1999 (- 2))"
  by (simp add: price_row_finds price_row_values pick_price_1_0_def pick_price_1_0_loop_find)

section \<open>The merge without an identifier column\<close>

lemma kod_in_SRC_id: "kod \<in> set SRC_id"
  by (simp add: SRC_id_def kod_def)

lemma SRC_id_nonempty: "c \<in> set SRC_id \<Longrightarrow> c \<noteq> []"
  by (auto simp: SRC_id_def)

lemma find_first_col_None:
  "find_first_col df cs = None \<Longrightarrow> c \<in> set cs \<Longrightarrow> c \<notin> set (columns df)"
  by (auto simp: find_first_col_def find_None_iff)

lemma find_first_col_Some:
  "find_first_col df cs = Some c \<Longrightarrow> c \<in> set cs \<and> c \<in> set (columns df)"
  by (auto simp: find_first_col_def find_Some_iff)

lemma get_col_missing: "c \<notin> set (columns df) \<Longrightarrow> get_col df c = Inl (KeyError c)"
  by (simp add: get_col_def)

lemma get_col_present:
  "c \<in> set (columns df) \<Longrightarrow> \<exists>vs. get_col df c = Inr vs"
  by (simp add: get_col_def)

lemma columns_set_col_id: "set (columns df) \<subseteq> set (columns (set_col df c vs))"
  by (auto simp: set_col_def)

text \<open>The first two steps of the merge of \<^verbatim>\<open>bot_1_1.py\<close> and \<^verbatim>\<open>bot_1_2.py\<close>.\<close>

lemma id_columns_KeyError:
  assumes "find_first_col df_ru SRC_id = None \<or> find_first_col df_ua SRC_id = None"
  shows "ebind (get_col df_ru (py_or (find_first_col df_ru SRC_id) kod)) (\<lambda>ids_ru.
           ebind (get_col df_ua (py_or (find_first_col df_ua SRC_id) kod)) (f ids_ru))
         = Inl (KeyError kod)"
proof (cases "find_first_col df_ru SRC_id")
  case None
  then have "get_col df_ru kod = Inl (KeyError kod)"
    using find_first_col_None kod_in_SRC_id get_col_missing by blast
  with None show ?thesis by (simp add: py_or_def ebind_def)
next
  case (Some c)
  then have c: "c \<in> set SRC_id" "c \<in> set (columns df_ru)"
    using find_first_col_Some by blast+
  then obtain vs where vs: "get_col df_ru c = Inr vs"
    using get_col_present by blast
  from Some assms have "find_first_col df_ua SRC_id = None" by simp
  then have "get_col df_ua kod = Inl (KeyError kod)"
    using find_first_col_None kod_in_SRC_id get_col_missing by blast
  with Some c vs \<open>find_first_col df_ua SRC_id = None\<close> show ?thesis
    by (simp add: py_or_def ebind_def SRC_id_nonempty)
qed

text \<open>
  C8, as amended. When no alias of \<^verbatim>\<open>SRC["id"]\<close> is a column of one of the two
  normalised tables, \<^verbatim>\<open>merge_ru_ua\<close> of \<^verbatim>\<open>bot_1_0.py\<close> returns the normalised base table,
  unmerged, and raises nothing; \<^verbatim>\<open>merge_ru_ua\<close> of \<^verbatim>\<open>bot_1_1.py\<close> and of \<^verbatim>\<open>bot_1_2.py\<close>
  falls back on the column \<^verbatim>\<open>kod\<close> (Cyrillic), which is then absent, and raises the
  \<^verbatim>\<open>KeyError\<close> of that name, producing no merged table. No version has an error of
  its own for the case.
\<close>

theorem merge_without_id_column:
  assumes "find_first_col (normalize_df df_ru) SRC_id = None \<or>
           find_first_col (normalize_df df_ua) SRC_id = None"
  shows "merge_ru_ua_1_0 df_ru df_ua = Inr (normalize_df df_ru) \<and>
         merge_ru_ua_1_1 df_ru df_ua = Inl (KeyError kod) \<and>
         merge_ru_ua_1_2 df_ru df_ua = Inl (KeyError kod)"
proof (intro conjI)
  from assms show "merge_ru_ua_1_0 df_ru df_ua = Inr (normalize_df df_ru)"
    by (auto simp: merge_ru_ua_1_0_def py_or_def Let_def)
  show "merge_ru_ua_1_1 df_ru df_ua = Inl (KeyError kod)"
    unfolding merge_ru_ua_1_1_def Let_def by (rule id_columns_KeyError [OF assms])
  show "merge_ru_ua_1_2 df_ru df_ua = Inl (KeyError kod)"
    unfolding merge_ru_ua_1_2_def Let_def by (rule id_columns_KeyError [OF assms])
qed

lemma ru_no_id_normalized:
  "normalize_df ru_no_id =
     \<lparr>columns = [u ''sku'', u ''name''], data = [[Str (u ''42''), Str (u ''Towel'')]]\<rparr>"
  by (simp add: normalize_df_def ru_no_id_def strip_def isspace_def str_lower_def lower_char_def)

lemma sku_name_unresolved:
  "find_first_col \<lparr>columns = [u ''sku'', u ''name''], data = d\<rparr> SRC_id = None"
  by (simp add: find_first_col_def SRC_id_def)

lemma ru_no_id_unresolved: "find_first_col (normalize_df ru_no_id) SRC_id = None"
  by (simp add: ru_no_id_normalized sku_name_unresolved [simplified])

theorem merge_without_id_column_witness:
  "merge_ru_ua_1_0 ru_no_id ua_with_id =
     Inr \<lparr>columns = [u ''sku'', u ''name''], data = [[Str (u ''42''), Str (u ''Towel'')]]\<rparr> \<and>
   merge_ru_ua_1_1 ru_no_id ua_with_id = Inl (KeyError kod) \<and>
   merge_ru_ua_1_2 ru_no_id ua_with_id = Inl (KeyError kod)"
  using merge_without_id_column [of ru_no_id ua_with_id, OF disjI1 [OF ru_no_id_unresolved]]
  by (simp add: ru_no_id_normalized)

text \<open>
  The claim as it is written fails: on these tables \<^verbatim>\<open>bot_1_0.py\<close> returns a table,
  the base table with its headers normalised, and the tree exporter then writes a
  document with no offer; \<^verbatim>\<open>bot_1_1.py\<close> raises Python's \<^verbatim>\<open>KeyError\<close>.
\<close>

theorem merge_1_0_returns_base_table:
  "merge_ru_ua_1_0 ru_no_id ua_with_id =
     Inr \<lparr>columns = [u ''sku'', u ''name''], data = [[Str (u ''42''), Str (u ''Towel'')]]\<rparr> \<and>
   generate_yml_1_0 ru_no_id ua_with_id =
     Inr (u ''<?xml version=\"1.0\" encoding=\"UTF-8\"?>'' @ [10] @
          u ''<yml_catalog><shop><offers /></shop></yml_catalog>'') \<and>
   merge_ru_ua_1_1 ru_no_id ua_with_id = Inl (KeyError kod)"
proof -
  have m: "merge_ru_ua_1_0 ru_no_id ua_with_id =
     Inr \<lparr>columns = [u ''sku'', u ''name''], data = [[Str (u ''42''), Str (u ''Towel'')]]\<rparr>"
    by (simp add: merge_ru_ua_1_0_def Let_def ru_no_id_normalized sku_name_unresolved [simplified]
        py_or_def)
  have y: "generate_yml_1_0 ru_no_id ua_with_id =
     Inr (u ''<?xml version=\"1.0\" encoding=\"UTF-8\"?>'' @ [10] @
          u ''<yml_catalog><shop><offers /></shop></yml_catalog>'')"
    by (simp add: generate_yml_1_0_def m ebind_def to_prom_yml_1_0_def find_first_col_def
        SRC_id_def SRC_qty_def py_or_def kod_def iterrows_def offer_1_0_def series_get_def
        List.map_filter_def strip_def yml_document_def)
  have k: "merge_ru_ua_1_1 ru_no_id ua_with_id = Inl (KeyError kod)"
    by (simp add: merge_ru_ua_1_1_def Let_def ru_no_id_normalized sku_name_unresolved [simplified] py_or_def
        get_col_def kod_def ebind_def)
  from m y k show ?thesis by simp
qed

section \<open>Dictionaries and frames\<close>

lemma map_of_dict_set: "map_of (dict_set k v d) = (map_of d)(k \<mapsto> v)"
  by (induction d) (auto simp: fun_eq_iff)

lemma keys_dict_set:
  "map fst (dict_set k v d) = (if k \<in> fst ` set d then map fst d else map fst d @ [k])"
  by (induction d) force+

lemma series_get_dict_set:
  "series_get (dict_set k v d) k' x = (if k' = k then v else series_get d k' x)"
  by (simp add: series_get_def map_of_dict_set)

lemma length_map_filter: "length (List.map_filter f xs) = length (filter (\<lambda>x. f x \<noteq> None) xs)"
  by (induction xs) (auto simp: List.map_filter_def)

lemma iterrows_DataFrame_columns:
  "iterrows (DataFrame_columns rows cols) =
     map (\<lambda>r. zip cols (map (\<lambda>c. series_get r c NaN) cols)) rows"
  by (simp add: iterrows_def DataFrame_columns_def)

lemma series_get_zip_map:
  "c \<in> set cols \<Longrightarrow> series_get (zip cols (map f cols)) c x = f c"
  by (simp add: series_get_def map_of_zip_map)

text \<open>A column of a frame built from dictionaries holds the entries of that key.\<close>

lemma get_col_DataFrame_columns:
  "c \<in> set cols \<Longrightarrow>
   get_col (DataFrame_columns rows cols) c = Inr (map (\<lambda>r. series_get r c NaN) rows)"
  by (simp add: get_col_def iterrows_DataFrame_columns series_get_zip_map)
     (simp add: DataFrame_columns_def)

lemma set_fromkeys: "set (fromkeys xs) = set xs"
proof -
  have "set (foldl (\<lambda>d k. if k \<in> set d then d else d @ [k]) acc xs) = set acc \<union> set xs"
    for acc :: "'a list"
    by (induction xs arbitrary: acc) auto
  then show ?thesis by (simp add: fromkeys_def)
qed

lemma get_col_DataFrame:
  "r0 \<in> set rows \<Longrightarrow> c \<in> fst ` set r0 \<Longrightarrow>
   get_col (DataFrame rows) c = Inr (map (\<lambda>r. series_get r c NaN) rows)"
  unfolding DataFrame_def
  by (rule get_col_DataFrame_columns) (auto simp: set_fromkeys)

section \<open>The columns of an item\<close>

lemma hd_fmt_col: "prefix \<noteq> [] \<Longrightarrow> hd (fmt_col prefix i) = hd prefix"
  by (simp add: fmt_col_def)

text \<open>
  The three prefixes of the characteristic columns begin with the code points
  1053, 1054 and 1047; a key that begins otherwise is none of these columns.
\<close>

lemma fill_triplets_other:
  assumes "hd k \<noteq> 1053" "hd k \<noteq> 1054" "hd k \<noteq> 1047"
  shows "map_of (fill_triplets i ts item) k = map_of item k"
proof -
  have ne: "k \<noteq> fmt_col Nazva_Kharakterystyky j \<and>
            k \<noteq> fmt_col Odynytsia_vymiru_Kharakterystyky j \<and>
            k \<noteq> fmt_col Znachennia_Kharakterystyky j" for j
    using assms
    by (auto simp: fmt_col_def Nazva_Kharakterystyky_def Odynytsia_vymiru_Kharakterystyky_def
        Znachennia_Kharakterystyky_def)
  show ?thesis
    by (induction i ts item rule: fill_triplets.induct) (simp_all add: map_of_dict_set ne)
qed

lemma series_get_fill_triplets_other:
  assumes "hd k \<noteq> 1053" "hd k \<noteq> 1054" "hd k \<noteq> 1047"
  shows "series_get (fill_triplets i ts item) k x = series_get item k x"
  by (simp add: series_get_def fill_triplets_other [OF assms])

lemma keys_dict_set_mono: "fst ` set d \<subseteq> fst ` set (dict_set k v d)"
proof -
  have "set (map fst d) \<subseteq> set (map fst (dict_set k v d))"
    by (simp only: keys_dict_set) auto
  then show ?thesis by simp
qed

lemma keys_fill_triplets_mono: "fst ` set item \<subseteq> fst ` set (fill_triplets i ts item)"
proof (induction ts arbitrary: i item)
  case Nil
  then show ?case by simp
next
  case (Cons t ts)
  obtain nm unit val where t: "t = (nm, unit, val)" by (cases t)
  define item' where "item' =
    dict_set (fmt_col Znachennia_Kharakterystyky i) (Str val)
      (dict_set (fmt_col Odynytsia_vymiru_Kharakterystyky i) (Str unit)
        (dict_set (fmt_col Nazva_Kharakterystyky i) (Str nm) item))"
  have "fst ` set item \<subseteq> fst ` set item'"
    unfolding item'_def
    by (rule subset_trans [OF keys_dict_set_mono subset_trans [OF keys_dict_set_mono keys_dict_set_mono]])
  moreover have "fst ` set item' \<subseteq> fst ` set (fill_triplets (Suc i) ts item')"
    by (rule Cons.IH)
  moreover have "fill_triplets i (t # ts) item = fill_triplets (Suc i) ts item'"
    by (simp add: t item'_def)
  ultimately show ?case by (simp only: subset_trans)
qed

lemma Kod_tovaru_item_1_1:
  "series_get (excel_item_1_1 col_qty r) Kod_tovaru x = series_get r Kod_tovaru (Str [])"
  by (simp add: excel_item_1_1_def Let_def series_get_fill_triplets_other series_get_dict_set
      Kod_tovaru_def Nazva_pozytsii_def Nazva_pozytsii_ukr_def Tsina_def Valiuta_def
      Kilkist_def Posylannia_zobrazhennia_def)

lemma Kod_tovaru_item_1_2:
  "series_get (excel_item_1_2 key_requests col_qty r) Kod_tovaru x =
     series_get r Kod_tovaru (Str [])"
  by (simp add: excel_item_1_2_def Let_def series_get_fill_triplets_other series_get_dict_set
      Kod_tovaru_def Nazva_pozytsii_def Nazva_pozytsii_ukr_def Tsina_def Valiuta_def
      Kilkist_def Posylannia_zobrazhennia_def Opys_def Opys_ukr_def Kliuchovi_frazy_def
      split: option.splits)

lemma Kod_tovaru_item_1_0:
  "excel_item_1_0 col_id col_qty r = Some item \<Longrightarrow>
   series_get item Kod_tovaru x =
     Str (take 25 (strip (str_cell (series_get r col_id (Str [])))))"
  by (auto simp: excel_item_1_0_def Let_def series_get_fill_triplets_other series_get_dict_set
      Kod_tovaru_def Nazva_pozytsii_def Nazva_pozytsii_ukr_def Tsina_def Valiuta_def
      Kilkist_def Posylannia_zobrazhennia_def Opys_def Opys_ukr_def
      split: if_splits)

lemma Tsina_item_1_1:
  "series_get (excel_item_1_1 col_qty r) Tsina x = price_or_empty (pick_price_1_1 r)"
  by (simp add: excel_item_1_1_def Let_def series_get_fill_triplets_other series_get_dict_set
      Kod_tovaru_def Nazva_pozytsii_def Nazva_pozytsii_ukr_def Tsina_def Valiuta_def
      Kilkist_def Posylannia_zobrazhennia_def)

lemma Tsina_item_1_2:
  "series_get (excel_item_1_2 key_requests col_qty r) Tsina x =
     price_or_empty (pick_price_1_1 r)"
  by (simp add: excel_item_1_2_def Let_def series_get_fill_triplets_other series_get_dict_set
      Kod_tovaru_def Nazva_pozytsii_def Nazva_pozytsii_ukr_def Tsina_def Valiuta_def
      Kilkist_def Posylannia_zobrazhennia_def Opys_def Opys_ukr_def Kliuchovi_frazy_def
      split: option.splits)

lemma Tsina_item_1_0:
  "excel_item_1_0 col_id col_qty r = Some item \<Longrightarrow>
   series_get item Tsina x = price_or_empty (pick_price_1_0 r)"
  by (auto simp: excel_item_1_0_def Let_def series_get_fill_triplets_other series_get_dict_set
      Kod_tovaru_def Nazva_pozytsii_def Nazva_pozytsii_ukr_def Tsina_def Valiuta_def
      Kilkist_def Posylannia_zobrazhennia_def Opys_def Opys_ukr_def
      split: if_splits)

lemma keys_empty_item: "fst ` set (map (\<lambda>c. (c, Str [])) cols) = set cols"
  by (induction cols) auto

lemma schema_keys_item_1_1: "set PROM_XLS_COLS_1_1 \<subseteq> fst ` set (excel_item_1_1 col_qty r)"
  unfolding excel_item_1_1_def Let_def
  by (intro subset_trans [OF _ keys_fill_triplets_mono] subset_trans [OF _ keys_dict_set_mono])
     (simp add: image_image)

lemma map_of_key: "map_of d k = Some v \<Longrightarrow> k \<in> fst ` set d"
  by (metis map_of_SomeD fst_conv image_eqI)

lemma schema_keys_item_1_2:
  "Kod_tovaru \<in> fst ` set (excel_item_1_2 key_requests col_qty r)"
  "Tsina \<in> fst ` set (excel_item_1_2 key_requests col_qty r)"
proof -
  have "map_of (excel_item_1_2 key_requests col_qty r) Kod_tovaru =
          Some (series_get r Kod_tovaru (Str []))"
    by (simp add: excel_item_1_2_def Let_def fill_triplets_other map_of_dict_set
        Kod_tovaru_def Nazva_pozytsii_def Nazva_pozytsii_ukr_def Tsina_def Valiuta_def
        Kilkist_def Posylannia_zobrazhennia_def Opys_def Opys_ukr_def Kliuchovi_frazy_def
        split: option.splits)
  then show "Kod_tovaru \<in> fst ` set (excel_item_1_2 key_requests col_qty r)"
    by (rule map_of_key)
  have "map_of (excel_item_1_2 key_requests col_qty r) Tsina =
          Some (price_or_empty (pick_price_1_1 r))"
    by (simp add: excel_item_1_2_def Let_def fill_triplets_other map_of_dict_set
        Kod_tovaru_def Nazva_pozytsii_def Nazva_pozytsii_ukr_def Tsina_def Valiuta_def
        Kilkist_def Posylannia_zobrazhennia_def Opys_def Opys_ukr_def Kliuchovi_frazy_def
        split: option.splits)
  then show "Tsina \<in> fst ` set (excel_item_1_2 key_requests col_qty r)"
    by (rule map_of_key)
qed

text \<open>
  The identifier and the price column of the tabular export, row by row. In
  \<^verbatim>\<open>bot_1_1.py\<close> and \<^verbatim>\<open>bot_1_2.py\<close> every row of the merged table gives a row, and its
  identifier is the cell of the merged table as it is.
\<close>

lemma iterrows_nonempty: "data df \<noteq> [] \<Longrightarrow> iterrows df \<noteq> []"
  by (simp add: iterrows_def)

lemma to_prom_excel_1_1_rows: "length (data (to_prom_excel_1_1 df)) = length (data df)"
  by (simp add: to_prom_excel_1_1_def DataFrame_def DataFrame_columns_def iterrows_def Let_def)

lemma to_prom_excel_1_2_rows: "length (data (to_prom_excel_1_2 df ks)) = length (data df)"
  by (simp add: to_prom_excel_1_2_def DataFrame_def DataFrame_columns_def iterrows_def Let_def)

lemma to_prom_excel_1_0_rows:
  "length (data (to_prom_excel_1_0 df)) =
     length (filter (\<lambda>r. strip (str_cell (series_get r (py_or (find_first_col df SRC_id) kod)
                                      (Str []))) \<noteq> []) (iterrows df))"
  by (simp add: to_prom_excel_1_0_def DataFrame_columns_def Let_def length_map_filter
      excel_item_1_0_def cong: filter_cong)

lemma to_prom_excel_1_1_column:
  assumes "data df \<noteq> []" and "c \<in> set PROM_XLS_COLS_1_1"
  shows "get_col (to_prom_excel_1_1 df) c =
           Inr (map (\<lambda>r. series_get (excel_item_1_1
                       (py_or (find_first_col df SRC_qty) (u ''quantity'')) r) c NaN)
                  (iterrows df))"
proof -
  define q where "q = py_or (find_first_col df SRC_qty) (u ''quantity'')"
  define rows where "rows = map (excel_item_1_1 q) (iterrows df)"
  from assms(1) obtain r rs where "iterrows df = r # rs"
    using iterrows_nonempty by (cases "iterrows df") auto
  then have "excel_item_1_1 q r \<in> set rows" by (simp add: rows_def)
  moreover have "c \<in> fst ` set (excel_item_1_1 q r)"
    using schema_keys_item_1_1 assms(2) by blast
  ultimately have "get_col (DataFrame rows) c = Inr (map (\<lambda>r. series_get r c NaN) rows)"
    by (rule get_col_DataFrame)
  then show ?thesis
    by (simp add: to_prom_excel_1_1_def rows_def q_def comp_def)
qed

lemma to_prom_excel_1_2_column:
  assumes "data df \<noteq> []" and "c = Kod_tovaru \<or> c = Tsina"
  shows "get_col (to_prom_excel_1_2 df ks) c =
           Inr (map (\<lambda>r. series_get (excel_item_1_2 ks
                       (py_or (find_first_col df SRC_qty) (u ''quantity'')) r) c NaN)
                  (iterrows df))"
proof -
  define q where "q = py_or (find_first_col df SRC_qty) (u ''quantity'')"
  define rows where "rows = map (excel_item_1_2 ks q) (iterrows df)"
  from assms(1) obtain r rs where "iterrows df = r # rs"
    using iterrows_nonempty by (cases "iterrows df") auto
  then have "excel_item_1_2 ks q r \<in> set rows" by (simp add: rows_def)
  moreover have "c \<in> fst ` set (excel_item_1_2 ks q r)"
    using schema_keys_item_1_2 assms(2) by blast
  ultimately have "get_col (DataFrame rows) c = Inr (map (\<lambda>r. series_get r c NaN) rows)"
    by (rule get_col_DataFrame)
  then show ?thesis
    by (simp add: to_prom_excel_1_2_def rows_def q_def comp_def)
qed

lemma Kod_tovaru_in_schema:
  "Kod_tovaru \<in> set PROM_XLS_COLS_1_0" "Kod_tovaru \<in> set PROM_XLS_COLS_1_1"
  "Kod_tovaru \<in> set PROM_XLS_COLS_1_2"
  by (simp_all add: PROM_XLS_COLS_1_0_def PROM_XLS_COLS_1_1_def PROM_XLS_COLS_1_2_def)

lemma Tsina_in_schema:
  "Tsina \<in> set PROM_XLS_COLS_1_0" "Tsina \<in> set PROM_XLS_COLS_1_1"
  "Tsina \<in> set PROM_XLS_COLS_1_2"
  by (simp_all add: PROM_XLS_COLS_1_0_def PROM_XLS_COLS_1_1_def PROM_XLS_COLS_1_2_def)

lemma to_prom_excel_1_1_ids:
  "data df \<noteq> [] \<Longrightarrow>
   get_col (to_prom_excel_1_1 df) Kod_tovaru =
     Inr (map (\<lambda>r. series_get r Kod_tovaru (Str [])) (iterrows df))"
  by (simp add: to_prom_excel_1_1_column Kod_tovaru_in_schema Kod_tovaru_item_1_1)

lemma to_prom_excel_1_2_ids:
  "data df \<noteq> [] \<Longrightarrow>
   get_col (to_prom_excel_1_2 df ks) Kod_tovaru =
     Inr (map (\<lambda>r. series_get r Kod_tovaru (Str [])) (iterrows df))"
  by (simp add: to_prom_excel_1_2_column Kod_tovaru_item_1_2)

lemma to_prom_excel_1_1_prices:
  "data df \<noteq> [] \<Longrightarrow>
   get_col (to_prom_excel_1_1 df) Tsina =
     Inr (map (\<lambda>r. price_or_empty (pick_price_1_1 r)) (iterrows df))"
  by (simp add: to_prom_excel_1_1_column Tsina_in_schema Tsina_item_1_1)

lemma to_prom_excel_1_2_prices:
  "data df \<noteq> [] \<Longrightarrow>
   get_col (to_prom_excel_1_2 df ks) Tsina =
     Inr (map (\<lambda>r. price_or_empty (pick_price_1_1 r)) (iterrows df))"
  by (simp add: to_prom_excel_1_2_column Tsina_item_1_2)

text \<open>
  In \<^verbatim>\<open>bot_1_0.py\<close> the rows with a blank identifier are left out, and the identifier
  written is the trimmed one cut to 25 characters.
\<close>

lemma map_filter_map:
  "(\<And>x y. f x = Some y \<Longrightarrow> g y = h x) \<Longrightarrow>
   map g (List.map_filter f xs) = map h (filter (\<lambda>x. f x \<noteq> None) xs)"
  by (induction xs) (auto simp: List.map_filter_def)

lemma to_prom_excel_1_0_ids:
  "get_col (to_prom_excel_1_0 df) Kod_tovaru =
     Inr (map (\<lambda>r. Str (take 25 (strip (str_cell (series_get r
                  (py_or (find_first_col df SRC_id) kod) (Str []))))))
            (filter (\<lambda>r. strip (str_cell (series_get r (py_or (find_first_col df SRC_id) kod)
                                      (Str []))) \<noteq> []) (iterrows df)))"
proof -
  define col_id where "col_id = py_or (find_first_col df SRC_id) kod"
  define q where "q = py_or (find_first_col df SRC_qty) (u ''quantity'')"
  have n: "(\<exists>y. excel_item_1_0 col_id q r = Some y) =
           (strip (str_cell (series_get r col_id (Str []))) \<noteq> [])" for r
    by (simp add: excel_item_1_0_def Let_def)
  have "map (\<lambda>item. series_get item Kod_tovaru NaN)
          (List.map_filter (excel_item_1_0 col_id q) (iterrows df)) =
        map (\<lambda>r. Str (take 25 (strip (str_cell (series_get r col_id (Str []))))))
          (filter (\<lambda>r. excel_item_1_0 col_id q r \<noteq> None) (iterrows df))"
    by (rule map_filter_map) (rule Kod_tovaru_item_1_0)
  then show ?thesis
    unfolding to_prom_excel_1_0_def Let_def col_id_def [symmetric] q_def [symmetric]
    by (simp add: get_col_DataFrame_columns Kod_tovaru_in_schema n)
qed

lemma to_prom_excel_1_0_prices:
  "get_col (to_prom_excel_1_0 df) Tsina =
     Inr (map (\<lambda>r. price_or_empty (pick_price_1_0 r))
            (filter (\<lambda>r. strip (str_cell (series_get r (py_or (find_first_col df SRC_id) kod)
                                      (Str []))) \<noteq> []) (iterrows df)))"
proof -
  define col_id where "col_id = py_or (find_first_col df SRC_id) kod"
  define q where "q = py_or (find_first_col df SRC_qty) (u ''quantity'')"
  have n: "(\<exists>y. excel_item_1_0 col_id q r = Some y) =
           (strip (str_cell (series_get r col_id (Str []))) \<noteq> [])" for r
    by (simp add: excel_item_1_0_def Let_def)
  have "map (\<lambda>item. series_get item Tsina NaN)
          (List.map_filter (excel_item_1_0 col_id q) (iterrows df)) =
        map (\<lambda>r. price_or_empty (pick_price_1_0 r))
          (filter (\<lambda>r. excel_item_1_0 col_id q r \<noteq> None) (iterrows df))"
    by (rule map_filter_map) (rule Tsina_item_1_0)
  then show ?thesis
    unfolding to_prom_excel_1_0_def Let_def col_id_def [symmetric] q_def [symmetric]
    by (simp add: get_col_DataFrame_columns Tsina_in_schema n)
qed

section \<open>Runs of the pipeline on concrete tables\<close>

lemmas str_eval = strip_def isspace_def str_replace_def str_lower_def lower_char_def str_int_def
  digits_of.simps

lemmas pd_eval = notna_def series_get_def iterrows_def get_col_def set_col_def select_cols_def
  rename_cols_def merge_left_def py_or_def astype_str_def astype_str_strip_def normalize_df_def
  find_first_col_def ebind_def Let_def align_def description_col_def

lemmas src_eval = SRC_id_def SRC_name_def SRC_qty_def SRC_price_def SRC_description_def
  kod_def nazva_def nazvanie_def opis_def opisanie_def id_col_def Kod_tovaru_def
  Nazva_pozytsii_def Nazva_pozytsii_ukr_def Opys_def Opys_ukr_def CURRENCY_def

lemmas float_eval = py_float_def price_text_def isdigit_def ascii_lower_def float_exponent_def
  digits_value_def mk_fin_def strip_zeros.simps str_float_def float_digits_def float_bool_def

lemmas yml_eval = yml_document_def text_element_def xml_safe_def escape_cdata_def
  escape_attrib_def build_image_list_def photo_parts_def fromkeys_def yml_params_def
  List.map_filter_simps SRC_photos_1_0_def SRC_photos_1_1_def SRC_params_primary_1_1_def

text \<open>
  Weak congruence rules: in a run on concrete tables the simplifier evaluates the
  argument a function is applied to, and the body only once it is applied.
\<close>

lemma ebind_weak_cong: "m = m' \<Longrightarrow> ebind m f = ebind m' f"
  by simp

lemma map_weak_cong: "xs = ys \<Longrightarrow> map f xs = map f ys"
  by simp

lemma filter_weak_cong: "xs = ys \<Longrightarrow> filter P xs = filter P ys"
  by simp

lemma find_weak_cong: "xs = ys \<Longrightarrow> find P xs = find P ys"
  by simp

lemma dropWhile_weak_cong: "xs = ys \<Longrightarrow> dropWhile P xs = dropWhile P ys"
  by simp

lemma takeWhile_weak_cong: "xs = ys \<Longrightarrow> takeWhile P xs = takeWhile P ys"
  by simp

lemma foldl_weak_cong: "a = b \<Longrightarrow> xs = ys \<Longrightarrow> foldl f a xs = foldl f b ys"
  by simp

lemma map_filter_weak_cong: "xs = ys \<Longrightarrow> List.map_filter f xs = List.map_filter f ys"
  by simp

lemmas eval_cong = let_weak_cong option.case_cong_weak sum.case_cong_weak list.case_cong_weak
  prod.case_cong_weak ebind_weak_cong map_weak_cong filter_weak_cong find_weak_cong
  dropWhile_weak_cong takeWhile_weak_cong foldl_weak_cong map_filter_weak_cong

lemma merge_markup_1_1:
  "merge_ru_ua_1_1 ru_markup ua_markup =
     Inr \<lparr>columns = [u ''product code'', u ''name'', u ''description'', id_col,
                     Nazva_pozytsii_ukr, Nazva_pozytsii, Kod_tovaru],
          data = [[IntV 1, Str (u ''A & B <C>''), Str (u ''soft''), Str (u ''1''),
                   Str (u ''AB''), Str (u ''A & B <C>''), Str (u ''1'')]]\<rparr>"
  by (simp add: merge_ru_ua_1_1_def ru_markup_def ua_markup_def str_eval pd_eval src_eval cong: eval_cong)

lemma merge_markup_1_0:
  "merge_ru_ua_1_0 ru_markup ua_markup =
     Inr \<lparr>columns = [u ''product code'', u ''name'', u ''description'', id_col,
                     Nazva_pozytsii_ukr, Opys_ukr, Nazva_pozytsii, Opys],
          data = [[IntV 1, Str (u ''A & B <C>''), Str (u ''soft''), Str (u ''1''),
                   Str (u ''AB''), Str (u ''mild''), Str (u ''A & B <C>''),
                   Str (u ''soft'')]]\<rparr>"
  by (simp add: merge_ru_ua_1_0_def ru_markup_def ua_markup_def str_eval pd_eval src_eval cong: eval_cong)

text \<open>
  C1, on \<^verbatim>\<open>bot_1_1.py\<close>: a product named \<^verbatim>\<open>A & B <C>\<close> is written with its name escaped
  twice. \<^verbatim>\<open>to_prom_yml\<close> stores \<^verbatim>\<open>xml_safe(name)\<close> as the text of the element, and
  \<^verbatim>\<open>ET.tostring\<close> escapes the text again.
\<close>

theorem to_prom_yml_1_1_escapes_twice:
  "generate_yml_1_1 ru_markup ua_markup =
     Inr (u ''<?xml version=\"1.0\" encoding=\"UTF-8\"?>'' @ [10] @
          u ''<yml_catalog><shop><offers><offer id=\"1\" available=\"true\">'' @
          u ''<name>A &amp;amp; B &amp;lt;C&amp;gt;</name><name_ua>AB</name_ua>'' @
          u ''<currencyId>UAH</currencyId></offer></offers></shop></yml_catalog>'')"
  by (simp add: generate_yml_1_1_def merge_markup_1_1 [simplified] to_prom_yml_1_1_def
      offer_1_1_def pick_price_1_1_def yml_eval str_eval pd_eval src_eval cong: eval_cong)

text \<open>\<^verbatim>\<open>bot_1_0.py\<close> has no \<^verbatim>\<open>xml_safe\<close>: on the same tables the name is escaped once.\<close>

lemma to_prom_yml_1_0_escapes_once:
  "generate_yml_1_0 ru_markup ua_markup =
     Inr (u ''<?xml version=\"1.0\" encoding=\"UTF-8\"?>'' @ [10] @
          u ''<yml_catalog><shop><offers><offer id=\"1\" available=\"true\">'' @
          u ''<name>A &amp; B &lt;C&gt;</name><name_ua>AB</name_ua>'' @
          u ''<description>soft</description><description_ua>mild</description_ua>'' @
          u ''<currencyId>UAH</currencyId></offer></offers></shop></yml_catalog>'')"
  by (simp add: generate_yml_1_0_def merge_markup_1_0 [simplified] to_prom_yml_1_0_def
      offer_1_0_def pick_price_1_0_def yml_eval str_eval pd_eval src_eval cong: eval_cong)

text \<open>Escaping a text once and twice, whatever the text.\<close>

lemma text_element_tostring:
  "t \<noteq> [] \<Longrightarrow> ET_tostring (text_element tag t) =
     [60] @ tag @ [62] @ escape_cdata t @ [60, 47] @ tag @ [62]"
  by (simp add: text_element_def)

lemma escape_cdata_markup: "escape_cdata (u ''A & B <C>'') = u ''A &amp; B &lt;C&gt;''"
  by (simp add: escape_cdata_def str_replace_def)

lemma escape_cdata_xml_safe_markup:
  "escape_cdata (xml_safe (u ''A & B <C>'')) = u ''A &amp;amp; B &amp;lt;C&amp;gt;''"
  by (simp add: escape_cdata_def xml_safe_def str_replace_def)


section \<open>Rows with a blank identifier\<close>

lemma merge_blank_1_1: "merge_ru_ua_1_1 ru_blank ua_blank = Inr merged_blank_1_1"
  by (simp add: merge_ru_ua_1_1_def ru_blank_def ua_blank_def merged_blank_1_1_def
      str_eval pd_eval src_eval cong: eval_cong)

lemma merge_blank_1_0: "merge_ru_ua_1_0 ru_blank ua_blank = Inr merged_blank_1_0"
  by (simp add: merge_ru_ua_1_0_def ru_blank_def ua_blank_def merged_blank_1_0_def
      str_eval pd_eval src_eval cong: eval_cong)

lemma merged_blank_1_1_ids:
  "map (\<lambda>r. series_get r Kod_tovaru (Str [])) (iterrows merged_blank_1_1) =
     [Str (u ''42''), Str []]"
  by (simp add: merged_blank_1_1_def iterrows_def series_get_def src_eval cong: eval_cong)

text \<open>
  C2, on \<^verbatim>\<open>bot_1_1.py\<close>: the second row of the merged table has an empty identifier,
  and the tabular export still has a row for it: two rows, the second with an
  empty identifier. \<^verbatim>\<open>to_prom_excel\<close> of \<^verbatim>\<open>bot_1_1.py\<close> has no test of the identifier.
\<close>

theorem to_prom_excel_1_1_keeps_blank_id:
  "ebind (merge_ru_ua_1_1 ru_blank ua_blank) (\<lambda>merged. get_col merged Kod_tovaru) =
     Inr [Str (u ''42''), Str []] \<and>
   ebind (generate_xlsx_1_1 ru_blank ua_blank) (\<lambda>out. get_col out Kod_tovaru) =
     Inr [Str (u ''42''), Str []] \<and>
   ebind (generate_xlsx_1_1 ru_blank ua_blank) (\<lambda>out. Inr (length (data out))) = Inr 2"
proof -
  have d: "data merged_blank_1_1 \<noteq> []" "length (data merged_blank_1_1) = 2"
    by (simp_all add: merged_blank_1_1_def)
  have a: "get_col merged_blank_1_1 Kod_tovaru = Inr [Str (u ''42''), Str []]"
    by (simp add: merged_blank_1_1_def get_col_def iterrows_def series_get_def src_eval cong: eval_cong)
  have b: "get_col (to_prom_excel_1_1 merged_blank_1_1) Kod_tovaru = Inr [Str (u ''42''), Str []]"
    by (simp only: to_prom_excel_1_1_ids [OF d(1)] merged_blank_1_1_ids)
  have c: "length (data (to_prom_excel_1_1 merged_blank_1_1)) = 2"
    by (simp only: to_prom_excel_1_1_rows d)
  from a b c show ?thesis
    by (simp add: generate_xlsx_1_1_def merge_blank_1_1 ebind_def)
qed

text \<open>
  The tree exporter of the same version, and both exporters of \<^verbatim>\<open>bot_1_0.py\<close>, leave
  the row out.
\<close>

lemma to_prom_yml_1_1_skips_blank_id:
  "generate_yml_1_1 ru_blank ua_blank =
     Inr (u ''<?xml version=\"1.0\" encoding=\"UTF-8\"?>'' @ [10] @
          u ''<yml_catalog><shop><offers><offer id=\"42\" available=\"true\">'' @
          u ''<name>Towel</name><name_ua>Rushnyk</name_ua>'' @
          u ''<currencyId>UAH</currencyId></offer></offers></shop></yml_catalog>'')"
  by (simp add: generate_yml_1_1_def merge_blank_1_1 merged_blank_1_1_def to_prom_yml_1_1_def
      offer_1_1_def pick_price_1_1_def yml_eval str_eval pd_eval src_eval cong: eval_cong)

lemma merged_blank_1_0_id_column:
  "py_or (find_first_col merged_blank_1_0 SRC_id) kod = u ''product code''"
  by (simp add: merged_blank_1_0_def find_first_col_def py_or_def src_eval cong: eval_cong)

lemma to_prom_excel_1_0_skips_blank_id:
  "ebind (generate_xlsx_1_0 ru_blank ua_blank) (\<lambda>out. get_col out Kod_tovaru) =
     Inr [Str (u ''42'')]"
proof -
  have "get_col (to_prom_excel_1_0 merged_blank_1_0) Kod_tovaru = Inr [Str (u ''42'')]"
    unfolding to_prom_excel_1_0_ids merged_blank_1_0_id_column
    by (simp add: merged_blank_1_0_def iterrows_def series_get_def strip_def isspace_def
        src_eval cong: eval_cong)
  then show ?thesis
    by (simp add: generate_xlsx_1_0_def merge_blank_1_0 ebind_def)
qed

text \<open>
  In general: \<^verbatim>\<open>to_prom_excel\<close> of \<^verbatim>\<open>bot_1_0.py\<close> writes a row for each row of the merged
  table but those with a blank identifier, and the ones of \<^verbatim>\<open>bot_1_1.py\<close> and
  \<^verbatim>\<open>bot_1_2.py\<close> write a row for every row.
\<close>

lemma to_prom_excel_row_counts:
  "length (data (to_prom_excel_1_0 df)) =
     length (iterrows df) -
     length (filter (\<lambda>r. strip (str_cell (series_get r (py_or (find_first_col df SRC_id) kod)
                                   (Str []))) = []) (iterrows df))"
  "length (data (to_prom_excel_1_1 df)) = length (data df)"
  "length (data (to_prom_excel_1_2 df ks)) = length (data df)"
proof -
  define blank where "blank = (\<lambda>r. strip (str_cell (series_get r
                        (py_or (find_first_col df SRC_id) kod) (Str []))) = [])"
  have "length (filter (\<lambda>r. \<not> blank r) (iterrows df)) + length (filter blank (iterrows df)) =
          length (iterrows df)"
    using sum_length_filter_compl [of blank "iterrows df"] by simp
  then have "length (filter (\<lambda>r. \<not> blank r) (iterrows df)) =
          length (iterrows df) - length (filter blank (iterrows df))"
    by linarith
  then show "length (data (to_prom_excel_1_0 df)) =
     length (iterrows df) -
     length (filter (\<lambda>r. strip (str_cell (series_get r (py_or (find_first_col df SRC_id) kod)
                                   (Str []))) = []) (iterrows df))"
    by (simp only: to_prom_excel_1_0_rows blank_def)
qed (rule to_prom_excel_1_1_rows to_prom_excel_1_2_rows)+

section \<open>The length of the identifier\<close>

lemma merge_long_1_2: "merge_ru_ua_1_2 ru_long ua_long = Inr merged_long_1_2"
  by (simp add: merge_ru_ua_1_2_def ru_long_def ua_long_def merged_long_1_2_def
      str_eval pd_eval src_eval cong: eval_cong)

lemma merge_long_1_0: "merge_ru_ua_1_0 ru_long ua_long = Inr merged_long_1_0"
  by (simp add: merge_ru_ua_1_0_def ru_long_def ua_long_def merged_long_1_0_def
      str_eval pd_eval src_eval cong: eval_cong)

text \<open>
  C6, on \<^verbatim>\<open>bot_1_2.py\<close>: an identifier of 30 characters is written to the identifier
  column whole. \<^verbatim>\<open>to_prom_excel\<close> of \<^verbatim>\<open>bot_1_2.py\<close> copies the cell of the merged table.
\<close>

theorem to_prom_excel_1_2_keeps_long_id:
  "ebind (generate_xlsx_1_2 ru_long ua_long None) (\<lambda>out. get_col out Kod_tovaru) =
     Inr [Str (u ''ABCDEFGHIJKLMNOPQRSTUVWXYZ0123'')] \<and>
   length (u ''ABCDEFGHIJKLMNOPQRSTUVWXYZ0123'') = 30"
proof -
  have d: "data merged_long_1_2 \<noteq> []"
    by (simp add: merged_long_1_2_def)
  have "map (\<lambda>r. series_get r Kod_tovaru (Str [])) (iterrows merged_long_1_2) =
          [Str (u ''ABCDEFGHIJKLMNOPQRSTUVWXYZ0123'')]"
    by (simp add: merged_long_1_2_def iterrows_def series_get_def src_eval cong: eval_cong)
  then have "get_col (to_prom_excel_1_2 merged_long_1_2 None) Kod_tovaru =
          Inr [Str (u ''ABCDEFGHIJKLMNOPQRSTUVWXYZ0123'')]"
    by (simp only: to_prom_excel_1_2_ids [OF d])
  then show ?thesis
    by (simp add: generate_xlsx_1_2_def merge_long_1_2 ebind_def)
qed

text \<open>\<^verbatim>\<open>bot_1_0.py\<close> cuts it to its first 25 characters, and does so for every row.\<close>

lemma merged_long_1_0_id_column:
  "py_or (find_first_col merged_long_1_0 SRC_id) kod = u ''product code''"
  by (simp add: merged_long_1_0_def find_first_col_def py_or_def src_eval cong: eval_cong)

lemma to_prom_excel_1_0_cuts_long_id:
  "ebind (generate_xlsx_1_0 ru_long ua_long) (\<lambda>out. get_col out Kod_tovaru) =
     Inr [Str (u ''ABCDEFGHIJKLMNOPQRSTUVWXY'')]"
proof -
  have "get_col (to_prom_excel_1_0 merged_long_1_0) Kod_tovaru =
          Inr [Str (u ''ABCDEFGHIJKLMNOPQRSTUVWXY'')]"
    unfolding to_prom_excel_1_0_ids merged_long_1_0_id_column
    by (simp add: merged_long_1_0_def iterrows_def series_get_def strip_def isspace_def
        src_eval cong: eval_cong)
  then show ?thesis
    by (simp add: generate_xlsx_1_0_def merge_long_1_0 ebind_def)
qed

lemma to_prom_excel_1_0_id_length:
  assumes "get_col (to_prom_excel_1_0 df) Kod_tovaru = Inr ids" and "v \<in> set ids"
  shows "\<exists>s. v = Str s \<and> s \<noteq> [] \<and> length s \<le> 25"
proof -
  from assms obtain r where
    "v = Str (take 25 (strip (str_cell (series_get r (py_or (find_first_col df SRC_id) kod)
                                           (Str [])))))"
    "strip (str_cell (series_get r (py_or (find_first_col df SRC_id) kod) (Str []))) \<noteq> []"
    unfolding to_prom_excel_1_0_ids by auto
  then show ?thesis by simp
qed


section \<open>A price of zero\<close>

lemma merge_zero_1_1: "merge_ru_ua_1_1 ru_zero ua_zero = Inr merged_zero_1_1"
  by (simp add: merge_ru_ua_1_1_def ru_zero_def ua_zero_def merged_zero_1_1_def
      str_eval pd_eval src_eval cong: eval_cong)

lemma merge_zero_1_0: "merge_ru_ua_1_0 ru_zero ua_zero = Inr merged_zero_1_0"
  by (simp add: merge_ru_ua_1_0_def ru_zero_def ua_zero_def merged_zero_1_0_def
      str_eval pd_eval src_eval cong: eval_cong)

lemma merged_zero_1_1_prices:
  "map pick_price_1_1 (iterrows merged_zero_1_1) = [Some (Fin 0 0)]"
  by (simp add: merged_zero_1_1_def iterrows_def pick_price_1_1_def notna_def float_eval
      str_eval src_eval cong: eval_cong)

text \<open>
  C9: a product whose price cell is \<^verbatim>\<open>0\<close>. \<^verbatim>\<open>pick_price\<close> returns the float zero, and
  \<^verbatim>\<open>pick_price(r) or ''\<close> in \<^verbatim>\<open>to_prom_excel\<close> (all versions) turns it into the empty
  string; \<^verbatim>\<open>if price:\<close> in \<^verbatim>\<open>to_prom_yml\<close> of \<^verbatim>\<open>bot_1_0.py\<close> leaves the price child
  out.
\<close>

theorem zero_price_written_as_absent:
  "ebind (merge_ru_ua_1_1 ru_zero ua_zero)
     (\<lambda>merged. Inr (map pick_price_1_1 (iterrows merged))) = Inr [Some (Fin 0 0)] \<and>
   ebind (generate_xlsx_1_1 ru_zero ua_zero) (\<lambda>out. get_col out Tsina) = Inr [Str []] \<and>
   generate_yml_1_0 ru_zero ua_zero =
     Inr (u ''<?xml version=\"1.0\" encoding=\"UTF-8\"?>'' @ [10] @
          u ''<yml_catalog><shop><offers><offer id=\"42\" available=\"true\">'' @
          u ''<name>Towel</name><name_ua>Rushnyk</name_ua>'' @
          u ''<description>soft</description><description_ua>mild</description_ua>'' @
          u ''<currencyId>UAH</currencyId></offer></offers></shop></yml_catalog>'')"
proof -
  have d: "data merged_zero_1_1 \<noteq> []"
    by (simp add: merged_zero_1_1_def)
  have "get_col (to_prom_excel_1_1 merged_zero_1_1) Tsina =
          Inr (map price_or_empty (map pick_price_1_1 (iterrows merged_zero_1_1)))"
    by (simp only: to_prom_excel_1_1_prices [OF d] map_map comp_def)
  then have x: "get_col (to_prom_excel_1_1 merged_zero_1_1) Tsina = Inr [Str []]"
    by (simp add: merged_zero_1_1_prices price_or_empty_def float_bool_def)
  have y: "to_prom_yml_1_0 merged_zero_1_0 =
     u ''<?xml version=\"1.0\" encoding=\"UTF-8\"?>'' @ [10] @
     u ''<yml_catalog><shop><offers><offer id=\"42\" available=\"true\">'' @
     u ''<name>Towel</name><name_ua>Rushnyk</name_ua>'' @
     u ''<description>soft</description><description_ua>mild</description_ua>'' @
     u ''<currencyId>UAH</currencyId></offer></offers></shop></yml_catalog>''"
    by (simp add: merged_zero_1_0_def to_prom_yml_1_0_def offer_1_0_def pick_price_1_0_def
        float_eval yml_eval str_eval pd_eval src_eval cong: eval_cong)
  from x y show ?thesis
    by (simp add: generate_xlsx_1_1_def generate_yml_1_0_def merge_zero_1_1 merge_zero_1_0
        merged_zero_1_1_prices ebind_def)
qed

text \<open>
  \<^verbatim>\<open>to_prom_yml\<close> of \<^verbatim>\<open>bot_1_1.py\<close> tests \<^verbatim>\<open>price is not None\<close> and writes the price of
  zero.
\<close>

lemma to_prom_yml_1_1_writes_zero_price:
  "generate_yml_1_1 ru_zero ua_zero =
     Inr (u ''<?xml version=\"1.0\" encoding=\"UTF-8\"?>'' @ [10] @
          u ''<yml_catalog><shop><offers><offer id=\"42\" available=\"true\">'' @
          u ''<name>Towel</name><name_ua>Rushnyk</name_ua><price>0.0</price>'' @
          u ''<currencyId>UAH</currencyId></offer></offers></shop></yml_catalog>'')"
  by (simp add: generate_yml_1_1_def merge_zero_1_1 merged_zero_1_1_def to_prom_yml_1_1_def
      offer_1_1_def pick_price_1_1_def float_eval yml_eval str_eval pd_eval src_eval
      cong: eval_cong)

text \<open>
  In general, the price cell of the tabular export is the parsed price when it
  is not zero, and the empty string when the price is zero or absent.
\<close>

lemma price_or_empty_cases:
  "price_or_empty None = Str []"
  "price_or_empty (Some (Fin 0 e)) = Str []"
  "float_bool x \<Longrightarrow> price_or_empty (Some x) = Flt x"
  by (simp_all add: price_or_empty_def float_bool_def)

text \<open>
  The price child of an offer: \<^verbatim>\<open>bot_1_1.py\<close> writes it exactly when \<^verbatim>\<open>pick_price\<close>
  gives a value, \<^verbatim>\<open>bot_1_0.py\<close> exactly when it gives a value that is not zero.
\<close>

lemma offer_1_1_price_child:
  assumes "offer_1_1 col_qty r = Some (Element tag attrib txt kids)"
  shows "(\<exists>t. text_element (u ''price'') t \<in> set kids) \<longleftrightarrow> pick_price_1_1 r \<noteq> None"
  using assms
  by (auto simp: offer_1_1_def Let_def text_element_def yml_params_def
      split: if_splits option.splits)

lemma offer_1_0_price_child:
  assumes "offer_1_0 col_id col_qty r = Some (Element tag attrib txt kids)"
  shows "(\<exists>t. text_element (u ''price'') t \<in> set kids) \<longleftrightarrow>
         (\<exists>x. pick_price_1_0 r = Some x \<and> float_bool x)"
  using assms
  by (auto simp: offer_1_0_def Let_def text_element_def
      split: if_splits option.splits)

section \<open>The left join\<close>

lemma merge_42_1_1: "merge_ru_ua_1_1 ru_42 ua_7 = Inr merged_42_1_1"
  by (simp add: merge_ru_ua_1_1_def ru_42_def ua_7_def merged_42_1_1_def
      str_eval pd_eval src_eval cong: eval_cong)

text \<open>
  C5, on \<^verbatim>\<open>bot_1_1.py\<close>: the base row with the identifier 42 has no translation row.
  It is in the merged table, with \<^verbatim>\<open>NaN\<close> as translated name, and the row with the
  identifier 7 of the translation table is not. \<^verbatim>\<open>to_prom_yml\<close> then tests
  \<^verbatim>\<open>if name_ua:\<close>, which is true of \<^verbatim>\<open>NaN\<close>, and writes the translated name \<^verbatim>\<open>nan\<close>.
\<close>

theorem unmatched_base_row_translated_name_nan:
  "merge_ru_ua_1_1 ru_42 ua_7 = Inr merged_42_1_1 \<and>
   get_col merged_42_1_1 Nazva_pozytsii_ukr = Inr [NaN] \<and>
   generate_yml_1_1 ru_42 ua_7 =
     Inr (u ''<?xml version=\"1.0\" encoding=\"UTF-8\"?>'' @ [10] @
          u ''<yml_catalog><shop><offers><offer id=\"42\" available=\"true\">'' @
          u ''<name>Towel</name><name_ua>nan</name_ua>'' @
          u ''<currencyId>UAH</currencyId></offer></offers></shop></yml_catalog>'')"
proof -
  have c: "get_col merged_42_1_1 Nazva_pozytsii_ukr = Inr [NaN]"
    by (simp add: merged_42_1_1_def get_col_def iterrows_def series_get_def src_eval
        cong: eval_cong)
  have y: "to_prom_yml_1_1 merged_42_1_1 =
     u ''<?xml version=\"1.0\" encoding=\"UTF-8\"?>'' @ [10] @
     u ''<yml_catalog><shop><offers><offer id=\"42\" available=\"true\">'' @
     u ''<name>Towel</name><name_ua>nan</name_ua>'' @
     u ''<currencyId>UAH</currencyId></offer></offers></shop></yml_catalog>''"
    by (simp add: merged_42_1_1_def to_prom_yml_1_1_def offer_1_1_def pick_price_1_1_def
        float_eval yml_eval str_eval pd_eval src_eval cong: eval_cong)
  from c y show ?thesis
    by (simp add: generate_yml_1_1_def merge_42_1_1 ebind_def)
qed

text \<open>
  The join itself is a left join. A row of the left frame with no row of the
  same key in the right frame is in the result once, with \<^verbatim>\<open>NaN\<close> in the columns of
  the right frame; every row of the left frame begins a row of the result; and
  the rows of the right frame whose key is the key of no left row change nothing.
\<close>

lemma merge_left_unmatched:
  assumes "l \<in> set (data left)"
    and "\<forall>r \<in> set (iterrows right).
           series_get r key NaN \<noteq> series_get (zip (columns left) l) key NaN"
  shows "l @ replicate (length (filter (\<lambda>c. c \<noteq> key) (columns right))) NaN
           \<in> set (data (merge_left left right key))"
proof -
  from assms(2) have "filter (\<lambda>r. series_get r key NaN = series_get (zip (columns left) l) key NaN)
                        (iterrows right) = []"
    by (simp add: filter_empty_conv)
  with assms(1) show ?thesis
    by (auto simp: merge_left_def Let_def intro!: bexI [of _ l])
qed

lemma merge_left_keeps_left_rows:
  assumes "l \<in> set (data left)"
  shows "\<exists>m \<in> set (data (merge_left left right key)). take (length l) m = l"
proof -
  define F where "F = (\<lambda>l.
    (case filter (\<lambda>r. series_get r key NaN = series_get (zip (columns left) l) key NaN)
            (iterrows right) of
       [] \<Rightarrow> [l @ replicate (length (filter (\<lambda>c. c \<noteq> key) (columns right))) NaN]
     | ms \<Rightarrow> map (\<lambda>r. l @ map (\<lambda>c. series_get r c NaN)
                              (filter (\<lambda>c. c \<noteq> key) (columns right))) ms))"
  have d: "data (merge_left left right key) = concat (map F (data left))"
    unfolding merge_left_def Let_def F_def by simp
  have "\<exists>m \<in> set (F l). take (length l) m = l"
    by (cases "filter (\<lambda>r. series_get r key NaN = series_get (zip (columns left) l) key NaN)
                 (iterrows right)") (simp_all add: F_def)
  then obtain m where "m \<in> set (F l)" "take (length l) m = l" by blast
  with assms have "m \<in> set (concat (map F (data left)))" by auto
  with d \<open>take (length l) m = l\<close> show ?thesis by auto
qed

lemma merge_left_ignores_unmatched_right:
  "merge_left left
     (right\<lparr>data := filter (\<lambda>row. series_get (zip (columns right) row) key NaN
                                 \<in> (\<lambda>l. series_get (zip (columns left) l) key NaN) ` set (data left))
                       (data right)\<rparr>) key
   = merge_left left right key"
proof -
  define K where "K = (\<lambda>l. series_get (zip (columns left) l) key NaN) ` set (data left)"
  define right' where
    "right' = right\<lparr>data := filter (\<lambda>row. series_get (zip (columns right) row) key NaN \<in> K)
                                (data right)\<rparr>"
  have it: "iterrows right' = filter (\<lambda>r. series_get r key NaN \<in> K) (iterrows right)"
    by (simp add: right'_def iterrows_def filter_map comp_def)
  have f: "filter (\<lambda>r. series_get r key NaN = series_get (zip (columns left) l) key NaN)
             (iterrows right') =
           filter (\<lambda>r. series_get r key NaN = series_get (zip (columns left) l) key NaN)
             (iterrows right)"
    if "l \<in> set (data left)" for l
    using that by (auto simp: it K_def intro: filter_cong)
  have c: "columns right' = columns right"
    by (simp add: right'_def)
  have "merge_left left right' key = merge_left left right key"
    unfolding merge_left_def Let_def c
    by (simp add: f cong: map_cong)
  then show ?thesis by (simp add: right'_def K_def)
qed

end
